theory Spec2Isabelle
  imports Complex_Main
begin

section \<open>Data model\<close>

text \<open>
  The predictor (\<open>chickmash.py\<close>) and the request handlers (\<open>views.py\<close>) are embedded
  as HOL functions. Python's exceptions are values of the type \<open>error\<close>: every
  \<open>raise Exception(f"... failed: {e}")\<close> of the source is a constructor that wraps the
  cause. A price is a finite Python float in the source; here it is a rational, which
  stands for the float nearest to it. What Python computes with floats (sums,
  differences, quotients, \<open>round\<close>) is not code of the repository: the advisor takes
  this arithmetic as a parameter, see the section on floating-point arithmetic.
\<close>

datatype error =
    YearOutOfRange int
  | MonthOutOfRange
  | DayOutOfRange
  | NoPredictionFound string int
  | ModelError string
  | ZeroDivisionError
  | IndexError
  | InvalidLiteral
  | MonthPredictionFailed error
  | YearPredictionFailed error
  | BestMonthsFailed error
  | MultiYearPredictionFailed error
  | ChartGenerationFailed error

text \<open>\<open>datetime.datetime\<close>, as far as the source reads it: year, month and day.\<close>

record datetime =
  dt_year :: int
  dt_month :: int
  dt_day :: int

definition is_leap :: "int \<Rightarrow> bool" where
  "is_leap y = (y mod 4 = 0 \<and> (y mod 100 \<noteq> 0 \<or> y mod 400 = 0))"

definition days_in_month :: "int \<Rightarrow> int \<Rightarrow> int" where
  "days_in_month y m =
     (if m = 2 then (if is_leap y then 29 else 28)
      else if m = 4 \<or> m = 6 \<or> m = 9 \<or> m = 11 then 30 else 31)"

text \<open>
  The constructor \<open>datetime(year, month, day)\<close> raises ValueError outside
  \<open>MINYEAR = 1 .. MAXYEAR = 9999\<close>, outside months \<open>1..12\<close> and outside the days of
  the month, in this order.
\<close>

definition mk_datetime :: "int \<Rightarrow> int \<Rightarrow> int \<Rightarrow> error + datetime" where
  "mk_datetime y m d =
     (if y < 1 \<or> 9999 < y then Inl (YearOutOfRange y)
      else if m < 1 \<or> 12 < m then Inl MonthOutOfRange
      else if d < 1 \<or> days_in_month y m < d then Inl DayOutOfRange
      else Inr \<lparr>dt_year = y, dt_month = m, dt_day = d\<rparr>)"

definition month_names :: "string list" where
  "month_names =
     [''January'', ''February'', ''March'', ''April'', ''May'', ''June'',
      ''July'', ''August'', ''September'', ''October'', ''November'', ''December'']"

text \<open>\<open>strftime('%B')\<close>: the full English month name of a date.\<close>

definition strftime_B :: "datetime \<Rightarrow> string" where
  "strftime_B d = month_names ! nat (dt_month d - 1)"

text \<open>
  One row of the table that Prophet's \<open>predict\<close> returns: the date \<open>ds\<close> and the three
  columns the source reads.
\<close>

record forecast_row =
  ds :: datetime
  yhat :: rat
  yhat_lower :: rat
  yhat_upper :: rat

text \<open>
  The loaded model \<open>self.model\<close> is opaque: \<open>make_future_dataframe(periods, freq='M')\<close>
  followed by \<open>predict\<close> is one call that takes the number of periods, may raise, and
  may change the state \<open>'s\<close> of the world outside the predictor (so a call that was
  made is visible in the state).
\<close>

type_synonym 's model = "int \<Rightarrow> 's \<Rightarrow> (error + forecast_row list) \<times> 's"

text \<open>
  The dictionary \<open>_predict_month\<close> returns. A historical month has the key \<open>note\<close>
  and no bounds; a forecast month has the two bounds and no note.
\<close>

record month_forecast =
  month :: string
  year :: int
  predicted_price :: rat
  lower_bound :: "rat option"
  upper_bound :: "rat option"
  note_text :: "string option"

section \<open>Rounding\<close>

text \<open>
  Python's \<open>round(x, 2)\<close>: to the nearest multiple of 0.01, a tie going to the even
  neighbour.
\<close>

definition round_half_even :: "rat \<Rightarrow> int" where
  "round_half_even x =
     (let f = \<lfloor>x\<rfloor>; r = x - of_int f
      in if r < 1 / 2 then f
         else if 1 / 2 < r then f + 1
         else if even f then f else f + 1)"

definition round2 :: "rat \<Rightarrow> rat" where
  "round2 x = of_int (round_half_even (x * 100)) / 100"

section \<open>Floating-point arithmetic\<close>

text \<open>
  The value of a float expression: a finite number (\<open>-0.0\<close> and \<open>0.0\<close> are both
  \<open>Finite 0\<close>, as they are equal in Python), an infinity or NaN. \<open>Finite r\<close> stands for
  the float nearest to \<open>r\<close>.
\<close>

datatype pyfloat = Finite rat | PosInf | NegInf | NaN

text \<open>
  The operations the advisor uses: \<open>sum\<close> of a list of prices (whose algorithm
  depends on the version of Python), \<open>/\<close>, \<open>-\<close> and \<open>*\<close> on floats, and
  \<open>round(x, 2)\<close>. The division is asked for non-zero divisors only: the advisor
  itself raises ZeroDivisionError at a zero divisor, as Python does.
\<close>

record float_ops =
  fsum :: "rat list \<Rightarrow> pyfloat"
  fdiv :: "pyfloat \<Rightarrow> pyfloat \<Rightarrow> pyfloat"
  fsub :: "pyfloat \<Rightarrow> pyfloat \<Rightarrow> pyfloat"
  fmul :: "pyfloat \<Rightarrow> pyfloat \<Rightarrow> pyfloat"
  fround2 :: "pyfloat \<Rightarrow> pyfloat"

text \<open>
  A test that is enough for a rational to be a double: in lowest terms the numerator
  has less than 54 bits and the denominator is a power of two up to \<open>2 ^ 1022\<close>.
\<close>

definition representable :: "rat \<Rightarrow> bool" where
  "representable x = (case quotient_of x of (p, q) \<Rightarrow> \<bar>p\<bar> < 2 ^ 53 \<and> q dvd 2 ^ 1022)"

fun prefix_sums :: "rat \<Rightarrow> rat list \<Rightarrow> rat list" where
  "prefix_sums acc [] = []"
| "prefix_sums acc (x # xs) = (acc + x) # prefix_sums (acc + x) xs"

text \<open>
  What IEEE 754 and Python promise of the operations whatever the version: a result
  that is a double is returned exactly. For \<open>sum\<close> this holds when the elements and
  all the partial sums are doubles; \<open>round(x, 2)\<close> of a double is the float nearest to
  the multiple of 0.01 that is nearest to it, a tie going to the even one.
\<close>

definition ieee :: "float_ops \<Rightarrow> bool" where
  "ieee fp \<longleftrightarrow>
     (\<forall>xs. list_all representable xs \<and> list_all representable (prefix_sums 0 xs)
        \<longrightarrow> fsum fp xs = Finite (sum_list xs))
   \<and> (\<forall>a b. representable a \<and> representable b \<and> b \<noteq> 0 \<and> representable (a / b)
        \<longrightarrow> fdiv fp (Finite a) (Finite b) = Finite (a / b))
   \<and> (\<forall>a b. representable a \<and> representable b \<and> representable (a - b)
        \<longrightarrow> fsub fp (Finite a) (Finite b) = Finite (a - b))
   \<and> (\<forall>a b. representable a \<and> representable b \<and> representable (a * b)
        \<longrightarrow> fmul fp (Finite a) (Finite b) = Finite (a * b))
   \<and> (\<forall>a. representable a \<longrightarrow> fround2 fp (Finite a) = Finite (round2 a))"

text \<open>An arithmetic to run the advisor on: every operation is exact.\<close>

definition exact_ops :: float_ops where
  "exact_ops =
     \<lparr>fsum = (\<lambda>xs. Finite (sum_list xs)),
      fdiv = (\<lambda>a b. case (a, b) of (Finite x, Finite y) \<Rightarrow> Finite (x / y) | _ \<Rightarrow> NaN),
      fsub = (\<lambda>a b. case (a, b) of (Finite x, Finite y) \<Rightarrow> Finite (x - y) | _ \<Rightarrow> NaN),
      fmul = (\<lambda>a b. case (a, b) of (Finite x, Finite y) \<Rightarrow> Finite (x * y) | _ \<Rightarrow> NaN),
      fround2 = (\<lambda>a. case a of Finite x \<Rightarrow> Finite (round2 x) | _ \<Rightarrow> a)\<rparr>"

section \<open>The monthly forecaster\<close>

definition last_training_date :: datetime where
  "last_training_date = \<lparr>dt_year = 2024, dt_month = 12, dt_day = 1\<rparr>"

text \<open>Line 44 of \<open>chickmash.py\<close>: the horizon of a target date, in months.\<close>

definition months_ahead :: "datetime \<Rightarrow> int" where
  "months_ahead target_date =
     (dt_year target_date - dt_year last_training_date) * 12
       + (dt_month target_date - dt_month last_training_date)"

text \<open>\<open>forecast['ds'].dt.to_period('M') == pd.Period(target_date, freq='M')\<close>.\<close>

definition same_period :: "datetime \<Rightarrow> forecast_row \<Rightarrow> bool" where
  "same_period target_date r =
     (dt_year (ds r) = dt_year target_date \<and> dt_month (ds r) = dt_month target_date)"

definition historical :: "datetime \<Rightarrow> int \<Rightarrow> month_forecast" where
  "historical target_date yr =
     \<lparr>month = strftime_B target_date, year = yr, predicted_price = 0,
      lower_bound = None, upper_bound = None, note_text = Some ''Historical data''\<rparr>"

definition predict_month ::
  "'s model \<Rightarrow> int \<Rightarrow> int \<Rightarrow> 's \<Rightarrow> (error + month_forecast) \<times> 's" where
  "predict_month model yr mo s =
     (case mk_datetime yr mo 1 of
        Inl e \<Rightarrow> (Inl (MonthPredictionFailed e), s)
      | Inr target_date \<Rightarrow>
          if months_ahead target_date \<le> 0 then (Inr (historical target_date yr), s)
          else
            (case model (months_ahead target_date) s of
               (Inl e, s') \<Rightarrow> (Inl (MonthPredictionFailed e), s')
             | (Inr forecast, s') \<Rightarrow>
                 (case filter (same_period target_date) forecast of
                    [] \<Rightarrow>
                      (Inl (MonthPredictionFailed
                             (NoPredictionFound (strftime_B target_date) (dt_year target_date))), s')
                  | prediction_data # _ \<Rightarrow>
                      (Inr \<lparr>month = strftime_B target_date, year = yr,
                            predicted_price = round2 (yhat prediction_data),
                            lower_bound = Some (round2 (yhat_lower prediction_data)),
                            upper_bound = Some (round2 (yhat_upper prediction_data)),
                            note_text = None\<rparr>, s'))))"

section \<open>The year forecaster\<close>

text \<open>
  The loop of \<open>predict_year\<close> over \<open>range(1, 13)\<close>: the predictions are collected in
  the order of the months, and the first exception leaves the loop.
\<close>

fun predict_months ::
  "'s model \<Rightarrow> int \<Rightarrow> int list \<Rightarrow> 's \<Rightarrow> (error + month_forecast list) \<times> 's" where
  "predict_months model yr [] s = (Inr [], s)"
| "predict_months model yr (mo # mos) s =
     (case predict_month model yr mo s of
        (Inl e, s') \<Rightarrow> (Inl e, s')
      | (Inr prediction, s') \<Rightarrow>
          (case predict_months model yr mos s' of
             (Inl e, s'') \<Rightarrow> (Inl e, s'')
           | (Inr predictions, s'') \<Rightarrow> (Inr (prediction # predictions), s'')))"

definition predict_year ::
  "'s model \<Rightarrow> int \<Rightarrow> 's \<Rightarrow> (error + month_forecast list) \<times> 's" where
  "predict_year model yr s =
     (case predict_months model yr [1..12] s of
        (Inl e, s') \<Rightarrow> (Inl (YearPredictionFailed e), s')
      | (Inr predictions, s') \<Rightarrow> (Inr predictions, s'))"

section \<open>The advisor\<close>

record recommendation =
  rec_month :: string
  price :: rat
  reason :: string

record profit =
  average_buy_price :: pyfloat
  average_sell_price :: pyfloat
  potential_profit_margin :: pyfloat
  annual_low :: rat
  annual_high :: rat

record best_months =
  analysis_year :: int
  best_buy_months :: "recommendation list"
  best_sell_months :: "recommendation list"
  profit_analysis :: profit

definition buy_reasons :: "(string \<times> string) list" where
  "buy_reasons =
     [(''January'', ''Post-holiday prices usually drop''),
      (''February'', ''Short month, stable low prices''),
      (''March'', ''Before peak season price rise''),
      (''April'', ''Good pre-rainy season prices''),
      (''May'', ''Planting season, lower demand''),
      (''June'', ''Mid-year price stability''),
      (''July'', ''Strategic buying opportunity''),
      (''August'', ''Pre-harvest favorable prices''),
      (''September'', ''Harvest begins, supply increases''),
      (''October'', ''Typically the lowest prices''),
      (''November'', ''Before holiday price surge''),
      (''December'', ''Avoid - holiday premium prices'')]"

definition get_buy_reason :: "string \<Rightarrow> string" where
  "get_buy_reason m =
     (case map_of buy_reasons m of Some r \<Rightarrow> r | None \<Rightarrow> ''Good buying conditions'')"

definition sell_reasons :: "(string \<times> string) list" where
  "sell_reasons =
     [(''January'', ''New year demand recovery''),
      (''February'', ''Valentine season demand''),
      (''March'', ''Peak season highest prices''),
      (''April'', ''Easter holiday demand''),
      (''May'', ''Pre-planting demand spike''),
      (''June'', ''Mid-year budget spending''),
      (''July'', ''Stable high demand period''),
      (''August'', ''Back-to-school demand''),
      (''September'', ''Post-harvest demand rise''),
      (''October'', ''Pre-holiday stocking begins''),
      (''November'', ''Holiday preparation peak''),
      (''December'', ''Highest holiday season prices'')]"

definition get_sell_reason :: "string \<Rightarrow> string" where
  "get_sell_reason m =
     (case map_of sell_reasons m of Some r \<Rightarrow> r | None \<Rightarrow> ''High demand period'')"

text \<open>
  \<open>sorted(predictions, key=...)\<close> is a stable ascending sort by the key, which is what
  \<open>sort_key\<close> computes. The slices are \<open>[:3]\<close> and \<open>[-3:]\<close>.
\<close>

definition sorted_predictions :: "month_forecast list \<Rightarrow> month_forecast list" where
  "sorted_predictions predictions = sort_key predicted_price predictions"

definition best_buy :: "month_forecast list \<Rightarrow> month_forecast list" where
  "best_buy predictions = take 3 (sorted_predictions predictions)"

definition best_sell :: "month_forecast list \<Rightarrow> month_forecast list" where
  "best_sell predictions =
     drop (length (sorted_predictions predictions) - 3) (sorted_predictions predictions)"

text \<open>Lines 86 and 87: \<open>sum([...]) / 3\<close>, in the arithmetic \<open>fp\<close>.\<close>

definition avg_buy :: "float_ops \<Rightarrow> month_forecast list \<Rightarrow> pyfloat" where
  "avg_buy fp predictions =
     fdiv fp (fsum fp (map predicted_price (best_buy predictions))) (Finite 3)"

definition avg_sell :: "float_ops \<Rightarrow> month_forecast list \<Rightarrow> pyfloat" where
  "avg_sell fp predictions =
     fdiv fp (fsum fp (map predicted_price (best_sell predictions))) (Finite 3)"

text \<open>
  Lines 80 to 113 of \<open>get_best_months\<close>, after the year forecast is there. The division
  of line 88 raises ZeroDivisionError when \<open>avg_buy\<close> is zero, and only then. The reads
  \<open>best_buy[0]\<close> and \<open>best_sell[-1]\<close> of lines 110 and 111 come after it and raise
  IndexError on an empty list (the year forecast has 12 entries, so this does not
  happen in \<open>get_best_months\<close>).
\<close>

definition rank_months ::
  "float_ops \<Rightarrow> int \<Rightarrow> month_forecast list \<Rightarrow> error + best_months" where
  "rank_months fp yr predictions =
     (if avg_buy fp predictions = Finite 0 then Inl ZeroDivisionError
      else if best_buy predictions = [] \<or> best_sell predictions = [] then Inl IndexError
      else
        let profit_margin =
              fmul fp
                (fdiv fp (fsub fp (avg_sell fp predictions) (avg_buy fp predictions))
                   (avg_buy fp predictions))
                (Finite 100)
        in Inr \<lparr>analysis_year = yr,
                best_buy_months =
                  map (\<lambda>m. \<lparr>rec_month = month m, price = predicted_price m,
                             reason = get_buy_reason (month m)\<rparr>) (best_buy predictions),
                best_sell_months =
                  map (\<lambda>m. \<lparr>rec_month = month m, price = predicted_price m,
                             reason = get_sell_reason (month m)\<rparr>) (best_sell predictions),
                profit_analysis =
                  \<lparr>average_buy_price = fround2 fp (avg_buy fp predictions),
                   average_sell_price = fround2 fp (avg_sell fp predictions),
                   potential_profit_margin = fround2 fp profit_margin,
                   annual_low = predicted_price (hd (best_buy predictions)),
                   annual_high = predicted_price (last (best_sell predictions))\<rparr>\<rparr>)"

definition get_best_months ::
  "float_ops \<Rightarrow> 's model \<Rightarrow> int \<Rightarrow> 's \<Rightarrow> (error + best_months) \<times> 's" where
  "get_best_months fp model yr s =
     (case predict_year model yr s of
        (Inl e, s') \<Rightarrow> (Inl (BestMonthsFailed e), s')
      | (Inr predictions, s') \<Rightarrow>
          (case rank_months fp yr predictions of
             Inl e \<Rightarrow> (Inl (BestMonthsFailed e), s')
           | Inr result \<Rightarrow> (Inr result, s')))"

section \<open>Several years, and the chart series\<close>

text \<open>
  The dictionary \<open>all_predictions\<close> keeps its keys in insertion order, and the chart
  reads it in that order: it is an association list here. The keys of one run are
  distinct, so every assignment \<open>all_predictions[year] = predictions\<close> adds an entry
  at the end.
\<close>

fun predict_years ::
  "'s model \<Rightarrow> int list \<Rightarrow> 's \<Rightarrow> (error + (int \<times> month_forecast list) list) \<times> 's" where
  "predict_years model [] s = (Inr [], s)"
| "predict_years model (yr # yrs) s =
     (case predict_year model yr s of
        (Inl e, s') \<Rightarrow> (Inl e, s')
      | (Inr predictions, s') \<Rightarrow>
          (case predict_years model yrs s' of
             (Inl e, s'') \<Rightarrow> (Inl e, s'')
           | (Inr all_predictions, s'') \<Rightarrow> (Inr ((yr, predictions) # all_predictions), s'')))"

text \<open>
  \<open>current_year\<close> is \<open>datetime.now().year\<close>, read from the clock; \<open>range(a, a + n)\<close> is
  the list \<open>[a..a + n - 1]\<close>, empty when \<open>n \<le> 0\<close>.
\<close>

definition get_multi_year_predictions ::
  "'s model \<Rightarrow> int \<Rightarrow> int \<Rightarrow> 's \<Rightarrow> (error + (int \<times> month_forecast list) list) \<times> 's" where
  "get_multi_year_predictions model current_year years s =
     (case predict_years model [current_year..current_year + years - 1] s of
        (Inl e, s') \<Rightarrow> (Inl (MultiYearPredictionFailed e), s')
      | (Inr all_predictions, s') \<Rightarrow> (Inr all_predictions, s'))"

text \<open>\<open>str\<close> of an integer, and the slice \<open>[-2:]\<close> of a string.\<close>

definition digit_char :: "nat \<Rightarrow> char" where
  "digit_char n = ''0123456789'' ! n"

fun str_nat :: "nat \<Rightarrow> string" where
  "str_nat n = (if n < 10 then [digit_char n] else str_nat (n div 10) @ [digit_char (n mod 10)])"

definition str_int :: "int \<Rightarrow> string" where
  "str_int i = (if i < 0 then CHR ''-'' # str_nat (nat (- i)) else str_nat (nat i))"

definition last2 :: "string \<Rightarrow> string" where
  "last2 s = drop (length s - 2) s"

definition chart_label :: "string \<Rightarrow> int \<Rightarrow> string" where
  "chart_label month_name yr = take 3 month_name @ '' '' @ last2 (str_int yr)"

text \<open>
  Lines 139 to 146 of \<open>generate_price_chart\<close>: the two lists \<open>all_months\<close> and
  \<open>all_prices\<close> grow together, so they are one list of pairs here.
\<close>

definition chart_series :: "(int \<times> month_forecast list) list \<Rightarrow> (string \<times> rat) list" where
  "chart_series predictions =
     concat (map (\<lambda>(yr, months_data).
                    map (\<lambda>month_data.
                           (chart_label (month month_data) yr, predicted_price month_data))
                        months_data)
                 predictions)"

text \<open>
  Plotting and saving are outside the predictor: \<open>savefig\<close> takes the series and returns
  the path of the saved image, or raises.
\<close>

definition generate_price_chart ::
  "'s model \<Rightarrow> int \<Rightarrow> ((string \<times> rat) list \<Rightarrow> error + string) \<Rightarrow> int \<Rightarrow> 's
     \<Rightarrow> (error + string) \<times> 's" where
  "generate_price_chart model current_year savefig years s =
     (case get_multi_year_predictions model current_year years s of
        (Inl e, s') \<Rightarrow> (Inl (ChartGenerationFailed e), s')
      | (Inr predictions, s') \<Rightarrow>
          (case savefig (chart_series predictions) of
             Inl e \<Rightarrow> (Inl (ChartGenerationFailed e), s')
           | Inr chart_path \<Rightarrow> (Inr chart_path, s')))"

section \<open>The request handlers\<close>

text \<open>
  \<open>int(request.GET.get(key, default))\<close> has three outcomes: the key is absent and the
  default is taken, the text is not an integer literal and \<open>int\<close> raises ValueError,
  or the text is an integer.
\<close>

datatype query_int = Absent | Malformed | Given int

definition int_param :: "query_int \<Rightarrow> int \<Rightarrow> error + int" where
  "int_param q dflt =
     (case q of Absent \<Rightarrow> Inr dflt | Malformed \<Rightarrow> Inl InvalidLiteral | Given i \<Rightarrow> Inr i)"

text \<open>
  A response is the status code with the JSON body: the \<open>error\<close> of a failure is the
  fixed text of the year check or \<open>str(e)\<close> of a caught exception; a success carries its
  \<open>data\<close> and its \<open>message\<close>.
\<close>

datatype failure = CannotAnalyzePastYears | Raised error

datatype payload =
    BuyMonths "recommendation list" profit int
  | SellMonths "recommendation list" profit int
  | CompleteAnalysis best_months "(int \<times> month_forecast list) list" string string

datatype json_response = Success payload string | Failure nat failure

fun status :: "json_response \<Rightarrow> nat" where
  "status (Success _ _) = 200"
| "status (Failure code _) = code"

text \<open>\<open>os.path.basename\<close> with the separator \<open>/\<close>.\<close>

definition basename :: "string \<Rightarrow> string" where
  "basename p = rev (takeWhile (\<lambda>c. c \<noteq> CHR ''/'') (rev p))"

definition best_buy_months_view ::
  "float_ops \<Rightarrow> 's model \<Rightarrow> int \<Rightarrow> query_int \<Rightarrow> 's \<Rightarrow> json_response \<times> 's" where
  "best_buy_months_view fp model current_year year_param s =
     (case int_param year_param current_year of
        Inl e \<Rightarrow> (Failure 500 (Raised e), s)
      | Inr yr \<Rightarrow>
          if yr < current_year then (Failure 400 CannotAnalyzePastYears, s)
          else
            (case get_best_months fp model yr s of
               (Inl e, s') \<Rightarrow> (Failure 500 (Raised e), s')
             | (Inr result, s') \<Rightarrow>
                 (Success (BuyMonths (best_buy_months result) (profit_analysis result) yr)
                    (''Best months to buy chicken mash in '' @ str_int yr), s')))"

definition best_sell_months_view ::
  "float_ops \<Rightarrow> 's model \<Rightarrow> int \<Rightarrow> query_int \<Rightarrow> 's \<Rightarrow> json_response \<times> 's" where
  "best_sell_months_view fp model current_year year_param s =
     (case int_param year_param current_year of
        Inl e \<Rightarrow> (Failure 500 (Raised e), s)
      | Inr yr \<Rightarrow>
          if yr < current_year then (Failure 400 CannotAnalyzePastYears, s)
          else
            (case get_best_months fp model yr s of
               (Inl e, s') \<Rightarrow> (Failure 500 (Raised e), s')
             | (Inr result, s') \<Rightarrow>
                 (Success (SellMonths (best_sell_months result) (profit_analysis result) yr)
                    (''Best months to sell chicken mash in '' @ str_int yr), s')))"

text \<open>\<open>complete_analysis\<close> reads both parameters and goes on to the predictor.\<close>

definition complete_analysis ::
  "float_ops \<Rightarrow> 's model \<Rightarrow> int \<Rightarrow> ((string \<times> rat) list \<Rightarrow> error + string)
     \<Rightarrow> query_int \<Rightarrow> query_int \<Rightarrow> 's \<Rightarrow> json_response \<times> 's" where
  "complete_analysis fp model current_year savefig year_param chart_years_param s =
     (case int_param year_param current_year of
        Inl e \<Rightarrow> (Failure 500 (Raised e), s)
      | Inr yr \<Rightarrow>
     (case int_param chart_years_param 3 of
        Inl e \<Rightarrow> (Failure 500 (Raised e), s)
      | Inr chart_years \<Rightarrow>
     (case get_best_months fp model yr s of
        (Inl e, s1) \<Rightarrow> (Failure 500 (Raised e), s1)
      | (Inr best, s1) \<Rightarrow>
     (case get_multi_year_predictions model current_year chart_years s1 of
        (Inl e, s2) \<Rightarrow> (Failure 500 (Raised e), s2)
      | (Inr predictions, s2) \<Rightarrow>
     (case generate_price_chart model current_year savefig chart_years s2 of
        (Inl e, s3) \<Rightarrow> (Failure 500 (Raised e), s3)
      | (Inr chart_path, s3) \<Rightarrow>
          (Success (CompleteAnalysis best predictions chart_path
                      (''/media/'' @ basename chart_path))
             (''Complete chicken mash analysis for '' @ str_int yr), s3))))))"

section \<open>A sample model\<close>

text \<open>
  A model to run the functions on: asked for \<open>periods\<close> months it counts the call and
  returns one row for each month after December 2024, dated at the end of the month,
  with the price \<open>price_of m\<close> in calendar month \<open>m\<close>; it raises when asked for more
  than \<open>limit\<close> months.
\<close>

definition sample_row :: "(int \<Rightarrow> rat) \<Rightarrow> int \<Rightarrow> forecast_row" where
  "sample_row price_of i =
     (let t = 2024 * 12 + 11 + i; y = t div 12; m = t mod 12 + 1
      in \<lparr>ds = \<lparr>dt_year = y, dt_month = m, dt_day = days_in_month y m\<rparr>,
          yhat = price_of m, yhat_lower = price_of m - 1, yhat_upper = price_of m + 1\<rparr>)"

definition sample_model :: "(int \<Rightarrow> rat) \<Rightarrow> int \<Rightarrow> nat model" where
  "sample_model price_of limit periods calls =
     (if limit < periods then (Inl (ModelError ''horizon too long''), Suc calls)
      else (Inr (map (sample_row price_of) [1..periods]), Suc calls))"

text \<open>
  Four price curves: 10, 20, ..., 120; 120, 110, ..., 10; the squares; and 60 and 50
  in turn.
\<close>

definition ramp :: "int \<Rightarrow> rat" where
  "ramp m = 10 * of_int m"

definition descending :: "int \<Rightarrow> rat" where
  "descending m = 130 - 10 * of_int m"

definition squares :: "int \<Rightarrow> rat" where
  "squares m = of_int (m * m)"

definition alternating :: "int \<Rightarrow> rat" where
  "alternating m = (if even m then 50 else 60)"

text \<open>The year forecast that \<open>predict_year\<close> reads off the sample model.\<close>

definition sample_year :: "(int \<Rightarrow> rat) \<Rightarrow> int \<Rightarrow> month_forecast list" where
  "sample_year price_of yr =
     map (\<lambda>m. \<lparr>month = month_names ! nat (m - 1), year = yr,
                predicted_price = round2 (price_of m),
                lower_bound = Some (round2 (price_of m - 1)),
                upper_bound = Some (round2 (price_of m + 1)), note_text = None\<rparr>) [1..12]"

text \<open>The year forecast of a year that lies before the cutoff.\<close>

definition historical_year :: "int \<Rightarrow> month_forecast list" where
  "historical_year yr =
     map (\<lambda>m. historical \<lparr>dt_year = yr, dt_month = m, dt_day = 1\<rparr> yr) [1..12]"

text \<open>
  What the advisor answers for 2025 on the curves \<open>ramp\<close>, \<open>descending\<close> and
  \<open>alternating\<close>, in exact
  arithmetic (which is the arithmetic of floats on these numbers).
\<close>

definition ramp_result :: best_months where
  "ramp_result =
     \<lparr>analysis_year = 2025,
      best_buy_months =
        [\<lparr>rec_month = ''January'', price = 10, reason = ''Post-holiday prices usually drop''\<rparr>,
         \<lparr>rec_month = ''February'', price = 20, reason = ''Short month, stable low prices''\<rparr>,
         \<lparr>rec_month = ''March'', price = 30, reason = ''Before peak season price rise''\<rparr>],
      best_sell_months =
        [\<lparr>rec_month = ''October'', price = 100, reason = ''Pre-holiday stocking begins''\<rparr>,
         \<lparr>rec_month = ''November'', price = 110, reason = ''Holiday preparation peak''\<rparr>,
         \<lparr>rec_month = ''December'', price = 120, reason = ''Highest holiday season prices''\<rparr>],
      profit_analysis =
        \<lparr>average_buy_price = Finite 20, average_sell_price = Finite 110,
         potential_profit_margin = Finite 450, annual_low = 10, annual_high = 120\<rparr>\<rparr>"

definition descending_result :: best_months where
  "descending_result =
     \<lparr>analysis_year = 2025,
      best_buy_months =
        [\<lparr>rec_month = ''December'', price = 10, reason = ''Avoid - holiday premium prices''\<rparr>,
         \<lparr>rec_month = ''November'', price = 20, reason = ''Before holiday price surge''\<rparr>,
         \<lparr>rec_month = ''October'', price = 30, reason = ''Typically the lowest prices''\<rparr>],
      best_sell_months =
        [\<lparr>rec_month = ''March'', price = 100, reason = ''Peak season highest prices''\<rparr>,
         \<lparr>rec_month = ''February'', price = 110, reason = ''Valentine season demand''\<rparr>,
         \<lparr>rec_month = ''January'', price = 120, reason = ''New year demand recovery''\<rparr>],
      profit_analysis =
        \<lparr>average_buy_price = Finite 20, average_sell_price = Finite 110,
         potential_profit_margin = Finite 450, annual_low = 10, annual_high = 120\<rparr>\<rparr>"

definition alternating_result :: best_months where
  "alternating_result =
     \<lparr>analysis_year = 2025,
      best_buy_months =
        [\<lparr>rec_month = ''February'', price = 50, reason = ''Short month, stable low prices''\<rparr>,
         \<lparr>rec_month = ''April'', price = 50, reason = ''Good pre-rainy season prices''\<rparr>,
         \<lparr>rec_month = ''June'', price = 50, reason = ''Mid-year price stability''\<rparr>],
      best_sell_months =
        [\<lparr>rec_month = ''July'', price = 60, reason = ''Stable high demand period''\<rparr>,
         \<lparr>rec_month = ''September'', price = 60, reason = ''Post-harvest demand rise''\<rparr>,
         \<lparr>rec_month = ''November'', price = 60, reason = ''Holiday preparation peak''\<rparr>],
      profit_analysis =
        \<lparr>average_buy_price = Finite 50, average_sell_price = Finite 60,
         potential_profit_margin = Finite 20, annual_low = 50, annual_high = 60\<rparr>\<rparr>"

section \<open>Calendar order\<close>

text \<open>
  The number of a month in the calendar, from its name: 1 for January, 12 for
  December. The properties of the ranking are stated with it.
\<close>

definition month_number :: "string \<Rightarrow> nat" where
  "month_number name = Suc (length (takeWhile (\<lambda>n. n \<noteq> name) month_names))"

section \<open>The horizon and the historical months\<close>

lemma mk_datetime_Inr:
  "mk_datetime y m 1 = Inr d \<longleftrightarrow>
     (1 \<le> y \<and> y \<le> 9999 \<and> 1 \<le> m \<and> m \<le> 12 \<and> d = \<lparr>dt_year = y, dt_month = m, dt_day = 1\<rparr>)"
  by (auto simp: mk_datetime_def days_in_month_def)

lemma months_ahead_simp:
  "months_ahead \<lparr>dt_year = y, dt_month = m, dt_day = dd\<rparr> = (y - 2024) * 12 + (m - 12)"
  by (simp add: months_ahead_def last_training_date_def)


text \<open>
  Claim C2. For every target year and month the horizon that \<open>_predict_month\<close>
  resolves is \<open>(year - 2024) * 12 + (month - 12)\<close>: the cutoff is 2024-12-01. A
  horizon is resolved for every date that \<open>datetime\<close> builds, that is for the years 1
  to 9999 and the months 1 to 12, and \<open>_predict_month\<close> goes by it: with a horizon of
  at most 0 it returns the historical record and leaves the state alone, with a
  positive horizon it calls the model with exactly this number of periods and
  answers from the forecast the model returns. The target 2025-03 has horizon 3 and
  the model is called with 3 periods; the target 2024-06 has horizon -6 and the
  historical record is returned with the state untouched.
\<close>

theorem horizon_formula:
  "(1 \<le> yr \<and> yr \<le> 9999 \<and> 1 \<le> mo \<and> mo \<le> 12 \<longrightarrow>
      (\<exists>d. mk_datetime yr mo 1 = Inr d \<and> months_ahead d = (yr - 2024) * 12 + (mo - 12)))
   \<and> (mk_datetime yr mo 1 = Inr d \<longrightarrow> months_ahead d = (yr - 2024) * 12 + (mo - 12))
   \<and> (1 \<le> yr \<and> yr \<le> 9999 \<and> 1 \<le> mo \<and> mo \<le> 12 \<and> (yr - 2024) * 12 + (mo - 12) \<le> 0 \<longrightarrow>
        predict_month model yr mo s =
          (Inr \<lparr>month = month_names ! nat (mo - 1), year = yr, predicted_price = 0,
                lower_bound = None, upper_bound = None,
                note_text = Some ''Historical data''\<rparr>, s))
   \<and> (1 \<le> yr \<and> yr \<le> 9999 \<and> 1 \<le> mo \<and> mo \<le> 12 \<and> 0 < (yr - 2024) * 12 + (mo - 12) \<longrightarrow>
        predict_month model yr mo s =
          (case model ((yr - 2024) * 12 + (mo - 12)) s of
             (Inl e, s') \<Rightarrow> (Inl (MonthPredictionFailed e), s')
           | (Inr forecast, s') \<Rightarrow>
               (case filter (\<lambda>r. dt_year (ds r) = yr \<and> dt_month (ds r) = mo) forecast of
                  [] \<Rightarrow>
                    (Inl (MonthPredictionFailed
                           (NoPredictionFound (month_names ! nat (mo - 1)) yr)), s')
                | prediction_data # _ \<Rightarrow>
                    (Inr \<lparr>month = month_names ! nat (mo - 1), year = yr,
                          predicted_price = round2 (yhat prediction_data),
                          lower_bound = Some (round2 (yhat_lower prediction_data)),
                          upper_bound = Some (round2 (yhat_upper prediction_data)),
                          note_text = None\<rparr>, s'))))
   \<and> map_sum id months_ahead (mk_datetime 2025 3 1) = Inr 3
   \<and> snd (predict_month model 2025 3 s) = snd (model 3 s)
   \<and> map_sum id months_ahead (mk_datetime 2024 6 1) = Inr (- 6)
   \<and> predict_month model 2024 6 s =
        (Inr \<lparr>month = ''June'', year = 2024, predicted_price = 0, lower_bound = None,
              upper_bound = None, note_text = Some ''Historical data''\<rparr>, s)"
proof (intro conjI impI)
  assume "1 \<le> yr \<and> yr \<le> 9999 \<and> 1 \<le> mo \<and> mo \<le> 12"
  then show "\<exists>d. mk_datetime yr mo 1 = Inr d \<and> months_ahead d = (yr - 2024) * 12 + (mo - 12)"
    by (simp add: mk_datetime_Inr months_ahead_simp)
next
  assume "mk_datetime yr mo 1 = Inr d"
  then show "months_ahead d = (yr - 2024) * 12 + (mo - 12)"
    by (auto simp: mk_datetime_Inr months_ahead_simp)
next
  assume a: "1 \<le> yr \<and> yr \<le> 9999 \<and> 1 \<le> mo \<and> mo \<le> 12 \<and> (yr - 2024) * 12 + (mo - 12) \<le> 0"
  then have d: "mk_datetime yr mo 1 = Inr \<lparr>dt_year = yr, dt_month = mo, dt_day = 1\<rparr>"
    by (simp add: mk_datetime_Inr)
  show "predict_month model yr mo s =
          (Inr \<lparr>month = month_names ! nat (mo - 1), year = yr, predicted_price = 0,
                lower_bound = None, upper_bound = None,
                note_text = Some ''Historical data''\<rparr>, s)"
    using a by (simp add: predict_month_def d months_ahead_simp historical_def strftime_B_def)
next
  assume a: "1 \<le> yr \<and> yr \<le> 9999 \<and> 1 \<le> mo \<and> mo \<le> 12 \<and> 0 < (yr - 2024) * 12 + (mo - 12)"
  then have d: "mk_datetime yr mo 1 = Inr \<lparr>dt_year = yr, dt_month = mo, dt_day = 1\<rparr>"
    by (simp add: mk_datetime_Inr)
  have f: "same_period \<lparr>dt_year = yr, dt_month = mo, dt_day = 1\<rparr>
             = (\<lambda>r. dt_year (ds r) = yr \<and> dt_month (ds r) = mo)"
    by (simp add: same_period_def fun_eq_iff)
  have h: "\<not> months_ahead \<lparr>dt_year = yr, dt_month = mo, dt_day = 1\<rparr> \<le> 0"
    using a by (simp add: months_ahead_simp)
  show "predict_month model yr mo s =
          (case model ((yr - 2024) * 12 + (mo - 12)) s of
             (Inl e, s') \<Rightarrow> (Inl (MonthPredictionFailed e), s')
           | (Inr forecast, s') \<Rightarrow>
               (case filter (\<lambda>r. dt_year (ds r) = yr \<and> dt_month (ds r) = mo) forecast of
                  [] \<Rightarrow>
                    (Inl (MonthPredictionFailed
                           (NoPredictionFound (month_names ! nat (mo - 1)) yr)), s')
                | prediction_data # _ \<Rightarrow>
                    (Inr \<lparr>month = month_names ! nat (mo - 1), year = yr,
                          predicted_price = round2 (yhat prediction_data),
                          lower_bound = Some (round2 (yhat_lower prediction_data)),
                          upper_bound = Some (round2 (yhat_upper prediction_data)),
                          note_text = None\<rparr>, s')))"
    unfolding predict_month_def d sum.case if_not_P [OF h] f
    by (simp add: months_ahead_simp strftime_B_def split: prod.splits sum.splits list.splits)
next
  have d: "mk_datetime 2025 3 1 = Inr \<lparr>dt_year = 2025, dt_month = 3, dt_day = 1\<rparr>"
    by (simp add: mk_datetime_Inr)
  show "map_sum id months_ahead (mk_datetime 2025 3 1) = Inr 3"
    by (simp add: d months_ahead_simp)
  show "snd (predict_month model 2025 3 s) = snd (model 3 s)"
    by (simp add: predict_month_def d months_ahead_simp split: prod.splits sum.splits list.splits)
next
  have d: "mk_datetime 2024 6 1 = Inr \<lparr>dt_year = 2024, dt_month = 6, dt_day = 1\<rparr>"
    by (simp add: mk_datetime_Inr)
  show "map_sum id months_ahead (mk_datetime 2024 6 1) = Inr (- 6)"
    by (simp add: d months_ahead_simp)
  show "predict_month model 2024 6 s =
        (Inr \<lparr>month = ''June'', year = 2024, predicted_price = 0, lower_bound = None,
              upper_bound = None, note_text = Some ''Historical data''\<rparr>, s)"
    by (simp add: predict_month_def d months_ahead_simp historical_def strftime_B_def month_names_def)
qed

theorem horizon_formula_witness:
  "(1::int) \<le> 2026 \<and> (2026::int) \<le> 9999 \<and> (1::int) \<le> 1 \<and> (1::int) \<le> 12
   \<and> mk_datetime 2026 1 1 = Inr \<lparr>dt_year = 2026, dt_month = 1, dt_day = 1\<rparr>
   \<and> months_ahead \<lparr>dt_year = 2026, dt_month = 1, dt_day = 1\<rparr> = 13
   \<and> (0::int) < (2026 - 2024) * 12 + (1 - 12)
   \<and> sample_model ramp 12 ((2026 - 2024) * 12 + (1 - 12)) (0::nat)
        = (Inl (ModelError ''horizon too long''), 1)
   \<and> predict_month (sample_model ramp 12) 2026 1 (0::nat)
        = (Inl (MonthPredictionFailed (ModelError ''horizon too long'')), 1)
   \<and> predict_month (sample_model ramp 13) 2026 1 (0::nat)
        = (Inr \<lparr>month = ''January'', year = 2026, predicted_price = 10,
                lower_bound = Some 9, upper_bound = Some 11, note_text = None\<rparr>, 1)
   \<and> (1::int) \<le> 2024 \<and> (2024::int) \<le> 9999 \<and> (1::int) \<le> 12 \<and> (12::int) \<le> 12
   \<and> (2024 - 2024) * 12 + (12 - 12) \<le> (0::int)
   \<and> predict_month (sample_model ramp 13) 2024 12 (0::nat)
        = (Inr \<lparr>month = ''December'', year = 2024, predicted_price = 0, lower_bound = None,
                upper_bound = None, note_text = Some ''Historical data''\<rparr>, 0)
   \<and> snd (predict_month (sample_model ramp 100) 2025 3 (0::nat)) = 1"
proof -
  have m: "sample_model ramp 12 ((2026 - 2024) * 12 + (1 - 12)) (0::nat)
        = (Inl (ModelError ''horizon too long''), 1)"
    by code_simp
  have p: "predict_month (sample_model ramp 13) 2026 1 (0::nat)
        = (Inr \<lparr>month = ''January'', year = 2026, predicted_price = 10,
                lower_bound = Some 9, upper_bound = Some 11, note_text = None\<rparr>, 1)"
    by code_simp
  have n: "month_names ! nat (12 - 1) = ''December''"
    by code_simp
  have f: "predict_month (sample_model ramp 12) 2026 1 (0::nat)
        = (Inl (MonthPredictionFailed (ModelError ''horizon too long'')), 1)"
    using horizon_formula [of 2026 1 "\<lparr>dt_year = 2026, dt_month = 1, dt_day = 1\<rparr>"
      "sample_model ramp 12" "0::nat"] m
    by simp
  have h: "predict_month (sample_model ramp 13) 2024 12 (0::nat)
        = (Inr \<lparr>month = ''December'', year = 2024, predicted_price = 0, lower_bound = None,
                upper_bound = None, note_text = Some ''Historical data''\<rparr>, 0)"
    using horizon_formula [of 2024 12 "\<lparr>dt_year = 2024, dt_month = 12, dt_day = 1\<rparr>"
      "sample_model ramp 13" "0::nat"] n
    by simp
  have c: "snd (predict_month (sample_model ramp 100) 2025 3 (0::nat)) = 1"
    using horizon_formula [of 2026 1 "\<lparr>dt_year = 2026, dt_month = 1, dt_day = 1\<rparr>"
      "sample_model ramp 100" "0::nat"]
    by (simp add: sample_model_def)
  show ?thesis
    using m p f h c by (simp add: mk_datetime_Inr months_ahead_simp)
qed

text \<open>
  Claim C3. For every year and month whose resolved horizon is at most 0,
  \<open>_predict_month\<close> returns the record with the month's name, the year, the price 0
  and the note "Historical data", with no lower and no upper bound. The model is not
  called: the result is the same for every model and the state comes back unchanged.
\<close>

theorem historical_short_circuit:
  assumes "mk_datetime yr mo 1 = Inr d" and "months_ahead d \<le> 0"
  shows "predict_month model yr mo s =
           (Inr \<lparr>month = month_names ! nat (mo - 1), year = yr, predicted_price = 0,
                 lower_bound = None, upper_bound = None,
                 note_text = Some ''Historical data''\<rparr>, s)"
proof -
  from assms(1) have d: "d = \<lparr>dt_year = yr, dt_month = mo, dt_day = 1\<rparr>"
    by (simp add: mk_datetime_Inr)
  show ?thesis
    using assms(2) by (simp add: predict_month_def assms(1) historical_def strftime_B_def d)
qed

theorem historical_short_circuit_witness:
  "mk_datetime 2024 6 1 = Inr \<lparr>dt_year = 2024, dt_month = 6, dt_day = 1\<rparr>
   \<and> months_ahead \<lparr>dt_year = 2024, dt_month = 6, dt_day = 1\<rparr> \<le> 0
   \<and> predict_month (sample_model (\<lambda>m. 50) 100) 2024 6 (0::nat) =
       (Inr \<lparr>month = ''June'', year = 2024, predicted_price = 0, lower_bound = None,
             upper_bound = None, note_text = Some ''Historical data''\<rparr>, 0)"
proof -
  have d: "mk_datetime 2024 6 1 = Inr \<lparr>dt_year = 2024, dt_month = 6, dt_day = 1\<rparr>"
    by (simp add: mk_datetime_Inr)
  have h: "months_ahead \<lparr>dt_year = 2024, dt_month = 6, dt_day = 1\<rparr> \<le> 0"
    by (simp add: months_ahead_simp)
  show ?thesis
    using historical_short_circuit [OF d h, of "sample_model (\<lambda>m. 50) 100" "0::nat"] d h
    by (simp add: month_names_def)
qed

section \<open>The shape of a year forecast\<close>

lemma predict_month_Inr:
  assumes "predict_month model yr mo s = (Inr p, s')"
  shows "month p = month_names ! nat (mo - 1) \<and> year p = yr"
  using assms
  by (auto simp: predict_month_def historical_def strftime_B_def mk_datetime_Inr
           split: sum.splits if_splits prod.splits list.splits)

lemma predict_months_Inr:
  "predict_months model yr mos s = (Inr ps, s') \<Longrightarrow>
     map month ps = map (\<lambda>mo. month_names ! nat (mo - 1)) mos \<and> (\<forall>p \<in> set ps. year p = yr)"
proof (induction mos arbitrary: s ps)
  case Nil
  then show ?case by simp
next
  case (Cons mo mos)
  then show ?case
    by (auto split: sum.splits prod.splits dest: predict_month_Inr)
qed

lemma month_names_upto: "map (\<lambda>mo. month_names ! nat (mo - 1)) [1..12] = month_names"
  by code_simp

lemma length_month_names: "length month_names = 12"
  by (simp add: month_names_def)

lemma predict_year_Inr:
  assumes "predict_year model yr s = (Inr predictions, s')"
  shows "map month predictions = month_names \<and> (\<forall>p \<in> set predictions. year p = yr)"
proof -
  from assms have "predict_months model yr [1..12] s = (Inr predictions, s')"
    by (auto simp: predict_year_def split: prod.splits sum.splits)
  from predict_months_Inr [OF this] show ?thesis
    by (simp add: month_names_upto)
qed

lemma predict_year_length:
  assumes "predict_year model yr s = (Inr predictions, s')"
  shows "length predictions = 12"
proof -
  have "length (map month predictions) = 12"
    using predict_year_Inr [OF assms] by (simp only: length_month_names)
  then show ?thesis by simp
qed

text \<open>
  Claim C4. For every year, when \<open>predict_year\<close> succeeds it returns exactly 12
  entries, and they stand in calendar order: the names of the months of the entries
  are January to December in this order, whatever the prices are, and every entry
  carries the year that was asked for.
\<close>

theorem year_forecast_shape:
  assumes "predict_year model yr s = (Inr predictions, s')"
  shows "length predictions = 12 \<and> map month predictions = month_names
         \<and> (\<forall>p \<in> set predictions. year p = yr)"
  using predict_year_Inr [OF assms] predict_year_length [OF assms] by simp

theorem year_forecast_shape_witness:
  "predict_year (sample_model ramp 100) 2025 (0::nat) = (Inr (sample_year ramp 2025), 12)
   \<and> length (sample_year ramp 2025) = 12 \<and> map month (sample_year ramp 2025) = month_names
   \<and> map year (sample_year ramp 2025) = replicate 12 2025"
proof -
  have e: "predict_year (sample_model ramp 100) 2025 (0::nat)
             = (Inr (sample_year ramp 2025), 12)"
    by code_simp
  have y: "map year (sample_year ramp 2025) = replicate 12 2025"
    by code_simp
  show ?thesis
    using year_forecast_shape [OF e] e y by simp
qed

section \<open>Facts about sorting\<close>

lemma map_insort_key: "map f (insort_key f x ys) = insort (f x) (map f ys)"
  by (induction ys) simp_all

lemma map_sort_key: "map f (sort_key f xs) = sort (map f xs)"
  by (induction xs) (simp_all add: map_insort_key)

lemma sorted_hd_Min:
  fixes xs :: "'a::linorder list"
  assumes "sorted xs" and "xs \<noteq> []"
  shows "hd xs = Min (set xs)"
proof (cases xs)
  case Nil
  with assms show ?thesis by simp
next
  case (Cons x ys)
  with assms have "\<forall>y \<in> set ys. x \<le> y" by simp
  then have "Min (set (x # ys)) = x"
    by (intro Min_eqI) auto
  with Cons show ?thesis by simp
qed

lemma sorted_last_Max:
  fixes xs :: "'a::linorder list"
  assumes "sorted xs" and "xs \<noteq> []"
  shows "last xs = Max (set xs)"
proof -
  have "\<forall>y \<in> set xs. y \<le> last xs"
    using assms
  proof (induction xs)
    case Nil
    then show ?case by simp
  next
    case (Cons x ys)
    then show ?case by (cases ys) auto
  qed
  moreover have "last xs \<in> set xs" using assms(2) by simp
  ultimately show ?thesis
    by (intro Max_eqI [symmetric]) auto
qed

text \<open>
  The sort is stable: where the input is ordered by a position \<open>g\<close>, two entries with
  the same key keep the order of their positions.
\<close>

lemma insort_key_stable_wrt:
  assumes "sorted_wrt (\<lambda>a b. f a = f b \<longrightarrow> g a < g b) ys"
    and "\<forall>y \<in> set ys. g x < (g y :: nat)"
  shows "sorted_wrt (\<lambda>a b. f a = f b \<longrightarrow> g a < g b) (insort_key f x ys)"
  using assms
proof (induction ys)
  case Nil
  then show ?case by simp
next
  case (Cons y ys)
  then show ?case
    by (auto simp: set_insort_key)
qed

lemma sort_key_stable_wrt:
  assumes "sorted_wrt (\<lambda>a b. g a < (g b :: nat)) xs"
  shows "sorted_wrt (\<lambda>a b. f a = f b \<longrightarrow> g a < g b) (sort_key f xs)"
  using assms
proof (induction xs)
  case Nil
  then show ?case by simp
next
  case (Cons x xs)
  then show ?case
    by (simp add: insort_key_stable_wrt)
qed

lemma distinct_map_insort_key:
  "distinct (map g (insort_key f x ys)) = (g x \<notin> g ` set ys \<and> distinct (map g ys))"
  by (induction ys) (auto simp: set_insort_key)

lemma distinct_map_sort_key: "distinct (map g (sort_key f xs)) = distinct (map g xs)"
  by (induction xs) (simp_all add: distinct_map_insort_key)

section \<open>Facts about the arithmetic\<close>

lemma ieee_fsum:
  assumes "ieee fp" and "list_all representable xs"
    and "list_all representable (prefix_sums 0 xs)"
  shows "fsum fp xs = Finite (sum_list xs)"
  using assms unfolding ieee_def by blast

lemma ieee_fdiv:
  assumes "ieee fp" and "representable a" and "representable b" and "b \<noteq> 0"
    and "representable (a / b)"
  shows "fdiv fp (Finite a) (Finite b) = Finite (a / b)"
  using assms unfolding ieee_def by blast

lemma ieee_fsub:
  assumes "ieee fp" and "representable a" and "representable b" and "representable (a - b)"
  shows "fsub fp (Finite a) (Finite b) = Finite (a - b)"
  using assms unfolding ieee_def by blast

lemma ieee_fmul:
  assumes "ieee fp" and "representable a" and "representable b" and "representable (a * b)"
  shows "fmul fp (Finite a) (Finite b) = Finite (a * b)"
  using assms unfolding ieee_def by blast

lemma ieee_fround2:
  assumes "ieee fp" and "representable a"
  shows "fround2 fp (Finite a) = Finite (round2 a)"
  using assms unfolding ieee_def by blast

lemma ieee_exact_ops: "ieee exact_ops"
  by (simp add: ieee_def exact_ops_def)

lemma round2_int: "round2 (of_int n) = of_int n"
proof -
  have "(of_int n :: rat) * 100 = of_int (n * 100)" by simp
  then have "round_half_even (of_int n * 100) = n * 100"
    by (simp only: round_half_even_def Let_def floor_of_int) simp
  then show ?thesis by (simp add: round2_def)
qed

text \<open>The arithmetic of the scenario with the prices 10, 20, ..., 120 is exact.\<close>

lemma ramp_arithmetic:
  assumes i: "ieee fp"
  shows "fdiv fp (fsum fp [10, 20, 30]) (Finite 3) = Finite 20"
    and "fdiv fp (fsum fp [100, 110, 120]) (Finite 3) = Finite 110"
    and "fmul fp (fdiv fp (fsub fp (Finite 110) (Finite 20)) (Finite 20)) (Finite 100)
           = Finite 450"
    and "fround2 fp (Finite 20) = Finite 20"
    and "fround2 fp (Finite 110) = Finite 110"
    and "fround2 fp (Finite 450) = Finite 450"
proof -
  have b: "fsum fp [10, 20, 30] = Finite (sum_list [10, 20, 30])"
    by (rule ieee_fsum [OF i]; code_simp)
  have "fdiv fp (Finite 60) (Finite 3) = Finite (60 / 3)"
    by (rule ieee_fdiv [OF i]; code_simp)
  with b show "fdiv fp (fsum fp [10, 20, 30]) (Finite 3) = Finite 20" by simp
  have sl: "fsum fp [100, 110, 120] = Finite (sum_list [100, 110, 120])"
    by (rule ieee_fsum [OF i]; code_simp)
  have "fdiv fp (Finite 330) (Finite 3) = Finite (330 / 3)"
    by (rule ieee_fdiv [OF i]; code_simp)
  with sl show "fdiv fp (fsum fp [100, 110, 120]) (Finite 3) = Finite 110" by simp
  have d: "fsub fp (Finite 110) (Finite 20) = Finite (110 - 20)"
    by (rule ieee_fsub [OF i]; code_simp)
  have q: "fdiv fp (Finite 90) (Finite 20) = Finite (90 / 20)"
    by (rule ieee_fdiv [OF i]; code_simp)
  have m: "fmul fp (Finite (9 / 2)) (Finite 100) = Finite (9 / 2 * 100)"
    by (rule ieee_fmul [OF i]; code_simp)
  from d q m
  show "fmul fp (fdiv fp (fsub fp (Finite 110) (Finite 20)) (Finite 20)) (Finite 100)
           = Finite 450"
    by simp
  have "fround2 fp (Finite 20) = Finite (round2 20)"
    by (rule ieee_fround2 [OF i]; code_simp)
  then show "fround2 fp (Finite 20) = Finite 20" using round2_int [of 20] by simp
  have "fround2 fp (Finite 110) = Finite (round2 110)"
    by (rule ieee_fround2 [OF i]; code_simp)
  then show "fround2 fp (Finite 110) = Finite 110" using round2_int [of 110] by simp
  have "fround2 fp (Finite 450) = Finite (round2 450)"
    by (rule ieee_fround2 [OF i]; code_simp)
  then show "fround2 fp (Finite 450) = Finite 450" using round2_int [of 450] by simp
qed

lemma zero_arithmetic:
  assumes i: "ieee fp"
  shows "fdiv fp (fsum fp [0, 0, 0]) (Finite 3) = Finite 0"
proof -
  have b: "fsum fp [0, 0, 0] = Finite (sum_list [0, 0, 0])"
    by (rule ieee_fsum [OF i]; code_simp)
  have "fdiv fp (Finite 0) (Finite 3) = Finite (0 / 3)"
    by (rule ieee_fdiv [OF i]; code_simp)
  with b show ?thesis by simp
qed

section \<open>The ranking of the advisor\<close>

lemma month_numbers: "map month_number month_names = [1, 2, 3, 4, 5, 6, 7, 8, 9, 10, 11, 12]"
  by code_simp

lemma calendar_ordered:
  assumes "map month predictions = month_names"
  shows "sorted_wrt (\<lambda>a b. month_number (month a) < month_number (month b)) predictions"
proof -
  have "sorted_wrt (<) (map month_number (map month predictions))"
    by (simp only: assms month_numbers) simp
  then show ?thesis
    by (simp add: sorted_wrt_map)
qed

lemma get_best_months_Inr:
  assumes "get_best_months fp model yr s = (Inr result, s')"
  shows "\<exists>predictions. predict_year model yr s = (Inr predictions, s')
           \<and> rank_months fp yr predictions = Inr result"
  using assms
  by (auto simp: get_best_months_def split: prod.splits sum.splits)

lemma rank_months_Inr:
  assumes "rank_months fp yr predictions = Inr result"
  shows "avg_buy fp predictions \<noteq> Finite 0"
    and "map rec_month (best_buy_months result) = map month (best_buy predictions)"
    and "map price (best_buy_months result) = map predicted_price (best_buy predictions)"
    and "map rec_month (best_sell_months result) = map month (best_sell predictions)"
    and "map price (best_sell_months result) = map predicted_price (best_sell predictions)"
    and "annual_low (profit_analysis result) = predicted_price (hd (best_buy predictions))"
    and "annual_high (profit_analysis result) = predicted_price (last (best_sell predictions))"
    and "potential_profit_margin (profit_analysis result) =
           fround2 fp (fmul fp
             (fdiv fp (fsub fp (avg_sell fp predictions) (avg_buy fp predictions))
                (avg_buy fp predictions))
             (Finite 100))"
    and "average_buy_price (profit_analysis result) = fround2 fp (avg_buy fp predictions)"
    and "average_sell_price (profit_analysis result) = fround2 fp (avg_sell fp predictions)"
    and "analysis_year result = yr"
  using assms
  by (auto simp: rank_months_def Let_def o_def split: if_splits)

lemma rank_months_lists:
  assumes "rank_months fp yr predictions = Inr result"
  shows "best_buy_months result =
           map (\<lambda>m. \<lparr>rec_month = month m, price = predicted_price m,
                      reason = get_buy_reason (month m)\<rparr>) (best_buy predictions)"
    and "best_sell_months result =
           map (\<lambda>m. \<lparr>rec_month = month m, price = predicted_price m,
                      reason = get_sell_reason (month m)\<rparr>) (best_sell predictions)"
  using assms
  by (auto simp: rank_months_def Let_def split: if_splits)

lemma distinct_month_names: "distinct month_names"
  by (simp add: month_names_def)

lemma ramp_sorted:
  assumes "map predicted_price ps = [10, 20, 30, 40, 50, 60, 70, 80, 90, 100, 110, 120]"
  shows "sorted_predictions ps = ps"
  unfolding sorted_predictions_def
  by (rule sort_key_id_if_sorted) (simp add: assms)

text \<open>
  Claim C5. The ranking is stable. Within \<open>best_buy_months\<close> and within
  \<open>best_sell_months\<close>, whenever one recommendation stands before another and the two
  have the same price, the month of the first comes earlier in the calendar than the
  month of the second.
\<close>

theorem ranking_is_stable:
  assumes "get_best_months fp model yr s = (Inr result, s')"
  shows "sorted_wrt (\<lambda>a b. price a = price b \<longrightarrow> month_number (rec_month a) < month_number (rec_month b))
           (best_buy_months result)
       \<and> sorted_wrt (\<lambda>a b. price a = price b \<longrightarrow> month_number (rec_month a) < month_number (rec_month b))
           (best_sell_months result)"
proof -
  from get_best_months_Inr [OF assms] obtain predictions where
    py: "predict_year model yr s = (Inr predictions, s')" and
    rk: "rank_months fp yr predictions = Inr result" by blast
  let ?R = "\<lambda>a b. predicted_price a = predicted_price b \<longrightarrow> month_number (month a) < month_number (month b)"
  have "map month predictions = month_names"
    using predict_year_Inr [OF py] by simp
  then have st: "sorted_wrt ?R (sorted_predictions predictions)"
    unfolding sorted_predictions_def
    by (intro sort_key_stable_wrt calendar_ordered)
  have b: "sorted_wrt ?R (best_buy predictions)"
    unfolding best_buy_def by (rule sorted_wrt_take [OF st])
  have sl: "sorted_wrt ?R (best_sell predictions)"
    unfolding best_sell_def by (rule sorted_wrt_drop [OF st])
  show ?thesis
    using b sl by (simp add: rank_months_lists [OF rk] sorted_wrt_map)
qed

theorem ranking_is_stable_witness:
  "get_best_months exact_ops (sample_model alternating 100) 2025 (0::nat)
     = (Inr alternating_result, 12)
   \<and> sorted_wrt (\<lambda>a b. price a = price b \<longrightarrow> month_number (rec_month a) < month_number (rec_month b))
        (best_buy_months alternating_result)
   \<and> sorted_wrt (\<lambda>a b. price a = price b \<longrightarrow> month_number (rec_month a) < month_number (rec_month b))
        (best_sell_months alternating_result)
   \<and> map rec_month (best_buy_months alternating_result) = [''February'', ''April'', ''June'']
   \<and> map rec_month (best_sell_months alternating_result) = [''July'', ''September'', ''November'']"
proof -
  have e: "get_best_months exact_ops (sample_model alternating 100) 2025 (0::nat)
             = (Inr alternating_result, 12)"
    by code_simp
  have m: "map rec_month (best_buy_months alternating_result) = [''February'', ''April'', ''June'']
         \<and> map rec_month (best_sell_months alternating_result) = [''July'', ''September'', ''November'']"
    by (simp add: alternating_result_def)
  show ?thesis
    using ranking_is_stable [OF e] e m by simp
qed

text \<open>
  Claim C10. For every year forecast the advisor answers on, there are three buy
  months and three sell months, and no month is in both lists.
\<close>

theorem buy_sell_disjoint:
  assumes "get_best_months fp model yr s = (Inr result, s')"
  shows "length (best_buy_months result) = 3 \<and> length (best_sell_months result) = 3
         \<and> set (map rec_month (best_buy_months result))
             \<inter> set (map rec_month (best_sell_months result)) = {}"
proof -
  from get_best_months_Inr [OF assms] obtain predictions where
    py: "predict_year model yr s = (Inr predictions, s')" and
    rk: "rank_months fp yr predictions = Inr result" by blast
  have len: "length predictions = 12" by (rule predict_year_length [OF py])
  have "distinct (map month predictions)"
    using predict_year_Inr [OF py] distinct_month_names by simp
  then have d: "distinct (map month (sorted_predictions predictions))"
    by (simp add: sorted_predictions_def distinct_map_sort_key)
  have ls: "length (sorted_predictions predictions) = 12"
    by (simp add: sorted_predictions_def len)
  have b: "map rec_month (best_buy_months result)
             = take 3 (map month (sorted_predictions predictions))"
    by (simp add: rank_months_Inr(2) [OF rk] best_buy_def take_map)
  have sl: "map rec_month (best_sell_months result)
             = drop 9 (map month (sorted_predictions predictions))"
    by (simp add: rank_months_Inr(4) [OF rk] best_sell_def ls drop_map)
  have "length (map rec_month (best_buy_months result)) = 3"
    by (simp only: b) (simp add: ls)
  moreover have "length (map rec_month (best_sell_months result)) = 3"
    by (simp only: sl) (simp add: ls)
  moreover have "set (map rec_month (best_buy_months result))
             \<inter> set (map rec_month (best_sell_months result)) = {}"
    by (simp only: b sl) (rule set_take_disj_set_drop_if_distinct [OF d], simp)
  ultimately show ?thesis by simp
qed

theorem buy_sell_disjoint_witness:
  "get_best_months exact_ops (sample_model ramp 100) 2025 (0::nat) = (Inr ramp_result, 12)
   \<and> length (best_buy_months ramp_result) = 3 \<and> length (best_sell_months ramp_result) = 3
   \<and> set (map rec_month (best_buy_months ramp_result))
        \<inter> set (map rec_month (best_sell_months ramp_result)) = {}
   \<and> map rec_month (best_buy_months ramp_result) = [''January'', ''February'', ''March'']
   \<and> map rec_month (best_sell_months ramp_result) = [''October'', ''November'', ''December'']"
proof -
  have g: "get_best_months exact_ops (sample_model ramp 100) 2025 (0::nat)
             = (Inr ramp_result, 12)"
    by code_simp
  have m: "map rec_month (best_buy_months ramp_result) = [''January'', ''February'', ''March'']
         \<and> map rec_month (best_sell_months ramp_result) = [''October'', ''November'', ''December'']"
    by (simp add: ramp_result_def)
  show ?thesis
    using buy_sell_disjoint [OF g] g m by simp
qed

lemma map_insort_key_comp:
  "map h (insort_key (\<lambda>x. k (h x)) x ys) = insort_key k (h x) (map h ys)"
  by (induction ys) simp_all

lemma map_sort_key_comp: "map h (sort_key (\<lambda>x. k (h x)) xs) = sort_key k (map h xs)"
  by (induction xs) (simp_all add: map_insort_key_comp)

lemma sorted_pairs:
  "map (\<lambda>p. (month p, predicted_price p)) (sorted_predictions predictions)
     = sort_key snd (map (\<lambda>p. (month p, predicted_price p)) predictions)"
  using map_sort_key_comp [of "\<lambda>p. (month p, predicted_price p)" snd predictions]
  by (simp add: sorted_predictions_def)

text \<open>In a sorted list the entries before a position are at most those after it.\<close>

lemma sorted_take_le_drop:
  assumes "sorted (map f xs)" and "x \<in> set (take n xs)" and "y \<in> set (drop n xs)"
  shows "f x \<le> f y"
proof -
  have "sorted (map f (take n xs) @ map f (drop n xs))"
    using assms(1) by (simp add: map_append [symmetric] del: map_append)
  then show ?thesis
    using assms(2,3) by (auto simp: sorted_append)
qed

text \<open>
  Claim C6. For every year forecast the advisor answers on, the buy months are the
  first three entries of the stable ascending sort of the year's months by price, and
  the sell months are the last three, still ascending: the months and prices of the
  two lists are those entries, each with the reason of its month; no month outside the
  buy list is cheaper than a buy month and none outside the sell list is dearer than
  a sell month; \<open>annual_low\<close> is the price of the first buy month and the lowest price
  of the year, \<open>annual_high\<close> is the price of the last sell month and the highest price
  of the year. For the year forecast with the prices 10, 20, ..., 120 from January to
  December the buy months are January, February and March at 10, 20 and 30, the sell
  months are October, November and December at 100, 110 and 120, the averages are 20
  and 110 and the margin is 450.
\<close>

theorem best_months_selection:
  assumes py: "predict_year model yr s = (Inr predictions, s')"
  shows "(get_best_months fp model yr s = (Inr result, s'') \<longrightarrow>
            map (\<lambda>r. (rec_month r, price r)) (best_buy_months result)
              = take 3 (sort_key snd (map (\<lambda>p. (month p, predicted_price p)) predictions))
          \<and> map (\<lambda>r. (rec_month r, price r)) (best_sell_months result)
              = drop 9 (sort_key snd (map (\<lambda>p. (month p, predicted_price p)) predictions))
          \<and> (\<forall>r \<in> set (best_buy_months result). reason r = get_buy_reason (rec_month r))
          \<and> (\<forall>r \<in> set (best_sell_months result). reason r = get_sell_reason (rec_month r))
          \<and> (\<forall>p \<in> set predictions. \<forall>r \<in> set (best_buy_months result).
                month p \<notin> set (map rec_month (best_buy_months result))
                  \<longrightarrow> price r \<le> predicted_price p)
          \<and> (\<forall>p \<in> set predictions. \<forall>r \<in> set (best_sell_months result).
                month p \<notin> set (map rec_month (best_sell_months result))
                  \<longrightarrow> predicted_price p \<le> price r)
          \<and> map price (best_buy_months result) = take 3 (sort (map predicted_price predictions))
          \<and> map price (best_sell_months result) = drop 9 (sort (map predicted_price predictions))
          \<and> sorted (map price (best_sell_months result))
          \<and> annual_low (profit_analysis result) = price (hd (best_buy_months result))
          \<and> annual_low (profit_analysis result) = Min (set (map predicted_price predictions))
          \<and> annual_high (profit_analysis result) = price (last (best_sell_months result))
          \<and> annual_high (profit_analysis result) = Max (set (map predicted_price predictions)))
       \<and> (ieee fp
            \<and> map predicted_price predictions = [10, 20, 30, 40, 50, 60, 70, 80, 90, 100, 110, 120] \<longrightarrow>
            (\<exists>r. get_best_months fp model yr s = (Inr r, s')
              \<and> map rec_month (best_buy_months r) = [''January'', ''February'', ''March'']
              \<and> map price (best_buy_months r) = [10, 20, 30]
              \<and> map rec_month (best_sell_months r) = [''October'', ''November'', ''December'']
              \<and> map price (best_sell_months r) = [100, 110, 120]
              \<and> average_buy_price (profit_analysis r) = Finite 20
              \<and> average_sell_price (profit_analysis r) = Finite 110
              \<and> potential_profit_margin (profit_analysis r) = Finite 450))"
proof (intro conjI impI)
  assume g: "get_best_months fp model yr s = (Inr result, s'')"
  from g py have rk: "rank_months fp yr predictions = Inr result"
    by (auto simp: get_best_months_def split: sum.splits)
  note bb = rank_months_lists(1) [OF rk] and bs = rank_months_lists(2) [OF rk]
  have len: "length predictions = 12" by (rule predict_year_length [OF py])
  let ?s = "sorted_predictions predictions"
  let ?pairs = "sort_key snd (map (\<lambda>p. (month p, predicted_price p)) predictions)"
  let ?prices = "sort (map predicted_price predictions)"
  have lp: "length ?prices = 12" by (simp add: len)
  have sp: "map predicted_price ?s = ?prices"
    by (simp add: sorted_predictions_def map_sort_key)
  have ls: "length ?s = 12"
    by (simp add: sorted_predictions_def len)
  have ss: "set ?s = set predictions"
    by (simp add: sorted_predictions_def)
  have srt: "sorted (map predicted_price ?s)"
    by (simp add: sorted_predictions_def)
  have "map (\<lambda>r. (rec_month r, price r)) (best_buy_months result)
          = map (\<lambda>p. (month p, predicted_price p)) (take 3 ?s)"
    by (simp add: bb best_buy_def o_def)
  also have "\<dots> = take 3 (map (\<lambda>p. (month p, predicted_price p)) ?s)"
    by (rule take_map [symmetric])
  finally show "map (\<lambda>r. (rec_month r, price r)) (best_buy_months result) = take 3 ?pairs"
    by (simp only: sorted_pairs)
  have "map (\<lambda>r. (rec_month r, price r)) (best_sell_months result)
          = map (\<lambda>p. (month p, predicted_price p)) (drop 9 ?s)"
    by (simp add: bs best_sell_def ls o_def)
  also have "\<dots> = drop 9 (map (\<lambda>p. (month p, predicted_price p)) ?s)"
    by (rule drop_map [symmetric])
  finally show "map (\<lambda>r. (rec_month r, price r)) (best_sell_months result) = drop 9 ?pairs"
    by (simp only: sorted_pairs)
  show "\<forall>r \<in> set (best_buy_months result). reason r = get_buy_reason (rec_month r)"
    by (auto simp: bb)
  show "\<forall>r \<in> set (best_sell_months result). reason r = get_sell_reason (rec_month r)"
    by (auto simp: bs)
  show "\<forall>p \<in> set predictions. \<forall>r \<in> set (best_buy_months result).
          month p \<notin> set (map rec_month (best_buy_months result))
            \<longrightarrow> price r \<le> predicted_price p"
  proof (intro ballI impI)
    fix p r
    assume p: "p \<in> set predictions" and r: "r \<in> set (best_buy_months result)"
      and out: "month p \<notin> set (map rec_month (best_buy_months result))"
    from r obtain x where x: "x \<in> set (take 3 ?s)" and rx: "price r = predicted_price x"
      by (auto simp: bb best_buy_def)
    have "p \<notin> set (take 3 ?s)"
      using out by (auto simp: bb best_buy_def)
    moreover have "set ?s = set (take 3 ?s) \<union> set (drop 3 ?s)"
      by (metis append_take_drop_id set_append)
    ultimately have "p \<in> set (drop 3 ?s)" using p ss by blast
    from sorted_take_le_drop [OF srt x this] rx show "price r \<le> predicted_price p"
      by simp
  qed
  show "\<forall>p \<in> set predictions. \<forall>r \<in> set (best_sell_months result).
          month p \<notin> set (map rec_month (best_sell_months result))
            \<longrightarrow> predicted_price p \<le> price r"
  proof (intro ballI impI)
    fix p r
    assume p: "p \<in> set predictions" and r: "r \<in> set (best_sell_months result)"
      and out: "month p \<notin> set (map rec_month (best_sell_months result))"
    from r obtain y where y: "y \<in> set (drop 9 ?s)" and ry: "price r = predicted_price y"
      by (auto simp: bs best_sell_def ls)
    have "p \<notin> set (drop 9 ?s)"
      using out by (auto simp: bs best_sell_def ls)
    moreover have "set ?s = set (take 9 ?s) \<union> set (drop 9 ?s)"
      by (metis append_take_drop_id set_append)
    ultimately have "p \<in> set (take 9 ?s)" using p ss by blast
    from sorted_take_le_drop [OF srt this y] ry show "predicted_price p \<le> price r"
      by simp
  qed
  have "map predicted_price (best_buy predictions) = take 3 (map predicted_price ?s)"
    unfolding best_buy_def by (rule take_map [symmetric])
  then show b: "map price (best_buy_months result) = take 3 ?prices"
    by (simp only: rank_months_Inr(3) [OF rk] sp)
  have "map predicted_price (best_sell predictions) = drop 9 (map predicted_price ?s)"
    unfolding best_sell_def ls by (simp add: drop_map)
  then show sl: "map price (best_sell_months result) = drop 9 ?prices"
    by (simp only: rank_months_Inr(5) [OF rk] sp)
  show "sorted (map price (best_sell_months result))"
    by (simp only: sl) (simp add: sorted_wrt_drop)
  have bne: "best_buy_months result \<noteq> []" and sne: "best_sell_months result \<noteq> []"
    using arg_cong [OF b, of length] arg_cong [OF sl, of length] lp by auto
  have bne': "best_buy predictions \<noteq> []" and sne': "best_sell predictions \<noteq> []"
    using ls by (auto simp: best_buy_def best_sell_def)
  have "price (hd (best_buy_months result)) = hd (map price (best_buy_months result))"
    using bne by (simp add: hd_map)
  also have "\<dots> = hd (map predicted_price (best_buy predictions))"
    by (simp only: rank_months_Inr(3) [OF rk])
  also have "\<dots> = predicted_price (hd (best_buy predictions))"
    using bne' by (simp add: hd_map)
  finally show lo: "annual_low (profit_analysis result) = price (hd (best_buy_months result))"
    by (simp add: rank_months_Inr(6) [OF rk])
  have "price (last (best_sell_months result)) = last (map price (best_sell_months result))"
    using sne by (simp add: last_map)
  also have "\<dots> = last (map predicted_price (best_sell predictions))"
    by (simp only: rank_months_Inr(5) [OF rk])
  also have "\<dots> = predicted_price (last (best_sell predictions))"
    using sne' by (simp add: last_map)
  finally show hi: "annual_high (profit_analysis result) = price (last (best_sell_months result))"
    by (simp add: rank_months_Inr(7) [OF rk])
  have pne: "?prices \<noteq> []"
  proof
    assume "?prices = []"
    then have "length ?prices = 0" by (simp only: list.size)
    with lp show False by (simp only:)
  qed
  have "price (hd (best_buy_months result)) = hd (take 3 ?prices)"
    using bne b by (simp add: hd_map [symmetric])
  also have "\<dots> = hd ?prices" by simp
  also have "\<dots> = Min (set ?prices)"
    by (rule sorted_hd_Min [OF sorted_sort pne])
  finally show "annual_low (profit_analysis result) = Min (set (map predicted_price predictions))"
    by (simp add: lo)
  have "price (last (best_sell_months result)) = last (drop 9 ?prices)"
    using sne sl by (simp add: last_map [symmetric])
  also have "\<dots> = last ?prices" using lp by simp
  also have "\<dots> = Max (set ?prices)"
    by (rule sorted_last_Max [OF sorted_sort pne])
  finally show "annual_high (profit_analysis result) = Max (set (map predicted_price predictions))"
    by (simp add: hi)
next
  assume a: "ieee fp
      \<and> map predicted_price predictions = [10, 20, 30, 40, 50, 60, 70, 80, 90, 100, 110, 120]"
  then have i: "ieee fp"
    and ramp: "map predicted_price predictions = [10, 20, 30, 40, 50, 60, 70, 80, 90, 100, 110, 120]"
    by simp_all
  have months: "map month predictions = month_names"
    using predict_year_Inr [OF py] by simp
  have so: "sorted_predictions predictions = predictions" by (rule ramp_sorted [OF ramp])
  have len: "length predictions = 12" by (rule predict_year_length [OF py])
  have bp: "map predicted_price (best_buy predictions) = [10, 20, 30]"
    by (simp add: best_buy_def so take_map [symmetric] ramp)
  have sp: "map predicted_price (best_sell predictions) = [100, 110, 120]"
    by (simp add: best_sell_def so len drop_map [symmetric] ramp)
  have bm: "map month (best_buy predictions) = [''January'', ''February'', ''March'']"
    by (simp add: best_buy_def so take_map [symmetric] months month_names_def)
  have sm: "map month (best_sell predictions) = [''October'', ''November'', ''December'']"
    by (simp add: best_sell_def so len drop_map [symmetric] months month_names_def)
  have ab: "avg_buy fp predictions = Finite 20"
    by (simp only: avg_buy_def bp ramp_arithmetic(1) [OF i])
  have as: "avg_sell fp predictions = Finite 110"
    by (simp only: avg_sell_def sp ramp_arithmetic(2) [OF i])
  have nz: "avg_buy fp predictions \<noteq> Finite 0" by (simp add: ab)
  have "best_buy predictions \<noteq> []" and "best_sell predictions \<noteq> []"
    using bp sp by auto
  then obtain r where rk: "rank_months fp yr predictions = Inr r"
    using nz by (auto simp: rank_months_def Let_def)
  have g: "get_best_months fp model yr s = (Inr r, s')"
    by (simp add: get_best_months_def py rk)
  have "potential_profit_margin (profit_analysis r) = Finite 450"
    by (simp only: rank_months_Inr(8) [OF rk] ab as ramp_arithmetic(3,6) [OF i])
  moreover have "average_buy_price (profit_analysis r) = Finite 20"
    by (simp only: rank_months_Inr(9) [OF rk] ab ramp_arithmetic(4) [OF i])
  moreover have "average_sell_price (profit_analysis r) = Finite 110"
    by (simp only: rank_months_Inr(10) [OF rk] as ramp_arithmetic(5) [OF i])
  ultimately show "\<exists>r. get_best_months fp model yr s = (Inr r, s')
              \<and> map rec_month (best_buy_months r) = [''January'', ''February'', ''March'']
              \<and> map price (best_buy_months r) = [10, 20, 30]
              \<and> map rec_month (best_sell_months r) = [''October'', ''November'', ''December'']
              \<and> map price (best_sell_months r) = [100, 110, 120]
              \<and> average_buy_price (profit_analysis r) = Finite 20
              \<and> average_sell_price (profit_analysis r) = Finite 110
              \<and> potential_profit_margin (profit_analysis r) = Finite 450"
    using g rank_months_Inr(2-5) [OF rk] bp sp bm sm by auto
qed

theorem best_months_selection_witness:
  "predict_year (sample_model descending 100) 2025 (0::nat)
     = (Inr (sample_year descending 2025), 12)
   \<and> get_best_months exact_ops (sample_model descending 100) 2025 (0::nat)
       = (Inr descending_result, 12)
   \<and> map (\<lambda>r. (rec_month r, price r)) (best_buy_months descending_result)
       = take 3 (sort_key snd (map (\<lambda>p. (month p, predicted_price p))
                                  (sample_year descending 2025)))
   \<and> map (\<lambda>r. (rec_month r, price r)) (best_buy_months descending_result)
       = [(''December'', 10), (''November'', 20), (''October'', 30)]
   \<and> map (\<lambda>r. (rec_month r, price r)) (best_sell_months descending_result)
       = [(''March'', 100), (''February'', 110), (''January'', 120)]
   \<and> annual_low (profit_analysis descending_result)
       = Min (set (map predicted_price (sample_year descending 2025)))
   \<and> annual_high (profit_analysis descending_result)
       = Max (set (map predicted_price (sample_year descending 2025)))
   \<and> predict_year (sample_model ramp 100) 2025 (0::nat) = (Inr (sample_year ramp 2025), 12)
   \<and> ieee exact_ops
   \<and> map predicted_price (sample_year ramp 2025)
       = [10, 20, 30, 40, 50, 60, 70, 80, 90, 100, 110, 120]
   \<and> get_best_months exact_ops (sample_model ramp 100) 2025 (0::nat) = (Inr ramp_result, 12)
   \<and> map rec_month (best_buy_months ramp_result) = [''January'', ''February'', ''March'']
   \<and> map rec_month (best_sell_months ramp_result) = [''October'', ''November'', ''December'']
   \<and> average_buy_price (profit_analysis ramp_result) = Finite 20
   \<and> average_sell_price (profit_analysis ramp_result) = Finite 110
   \<and> potential_profit_margin (profit_analysis ramp_result) = Finite 450"
proof -
  have d: "predict_year (sample_model descending 100) 2025 (0::nat)
             = (Inr (sample_year descending 2025), 12)"
    by code_simp
  have dg: "get_best_months exact_ops (sample_model descending 100) 2025 (0::nat)
             = (Inr descending_result, 12)"
    by code_simp
  have db: "map (\<lambda>r. (rec_month r, price r)) (best_buy_months descending_result)
       = [(''December'', 10), (''November'', 20), (''October'', 30)]"
    by (simp add: descending_result_def)
  have ds: "map (\<lambda>r. (rec_month r, price r)) (best_sell_months descending_result)
       = [(''March'', 100), (''February'', 110), (''January'', 120)]"
    by (simp add: descending_result_def)
  note dt = best_months_selection [OF d, of exact_ops descending_result 12]
  have dp: "map (\<lambda>r. (rec_month r, price r)) (best_buy_months descending_result)
       = take 3 (sort_key snd (map (\<lambda>p. (month p, predicted_price p))
                                  (sample_year descending 2025)))"
    using dt dg by blast
  have dl: "annual_low (profit_analysis descending_result)
       = Min (set (map predicted_price (sample_year descending 2025)))"
    using dt dg by blast
  have dh: "annual_high (profit_analysis descending_result)
       = Max (set (map predicted_price (sample_year descending 2025)))"
    using dt dg by blast
  have e: "predict_year (sample_model ramp 100) 2025 (0::nat) = (Inr (sample_year ramp 2025), 12)"
    by code_simp
  have p: "map predicted_price (sample_year ramp 2025)
             = [10, 20, 30, 40, 50, 60, 70, 80, 90, 100, 110, 120]"
    by code_simp
  have g: "get_best_months exact_ops (sample_model ramp 100) 2025 (0::nat) = (Inr ramp_result, 12)"
    by code_simp
  have "\<exists>r. get_best_months exact_ops (sample_model ramp 100) 2025 (0::nat) = (Inr r, 12)
              \<and> map rec_month (best_buy_months r) = [''January'', ''February'', ''March'']
              \<and> map price (best_buy_months r) = [10, 20, 30]
              \<and> map rec_month (best_sell_months r) = [''October'', ''November'', ''December'']
              \<and> map price (best_sell_months r) = [100, 110, 120]
              \<and> average_buy_price (profit_analysis r) = Finite 20
              \<and> average_sell_price (profit_analysis r) = Finite 110
              \<and> potential_profit_margin (profit_analysis r) = Finite 450"
    using best_months_selection [OF e, of exact_ops ramp_result 12] ieee_exact_ops p
    by blast
  then have v: "map rec_month (best_buy_months ramp_result) = [''January'', ''February'', ''March'']"
    "map rec_month (best_sell_months ramp_result) = [''October'', ''November'', ''December'']"
    "average_buy_price (profit_analysis ramp_result) = Finite 20"
    "average_sell_price (profit_analysis ramp_result) = Finite 110"
    "potential_profit_margin (profit_analysis ramp_result) = Finite 450"
    using g by auto
  show ?thesis
    by (intro conjI) (rule d dg dp db ds dl dh e ieee_exact_ops p g v)+
qed

section \<open>The profit margin\<close>

text \<open>
  Claim C1, the part that fails. For the year 2024 every month is historical, the
  average buy price is 0, and \<open>get_best_months\<close> raises: it returns no analysis and no
  margin, a sentinel or other.
\<close>

theorem zero_average_counterexample:
  "predict_year (sample_model ramp 100) 2024 (0::nat) = (Inr (historical_year 2024), 0)
   \<and> avg_buy exact_ops (historical_year 2024) = Finite 0
   \<and> get_best_months exact_ops (sample_model ramp 100) 2024 (0::nat)
       = (Inl (BestMonthsFailed ZeroDivisionError), 0)"
  by code_simp

text \<open>
  Claim C1, as amended. For every year forecast and whatever the float arithmetic
  computes: when the average buy price \<open>sum(buy prices) / 3\<close> is not zero the advisor
  answers, and the margin it reports is \<open>round((avg_sell - avg_buy) / avg_buy * 100, 2)\<close>
  in this arithmetic, for the averages of the three sell prices and of the three buy
  prices it reports; when the average buy price is zero it raises "Best months
  analysis failed" with the division by zero as the cause. In every arithmetic that
  returns exact results exactly, a year forecast whose prices are all 0 (a historical
  year) makes it raise.
\<close>

theorem margin_or_failure:
  assumes py: "predict_year model yr s = (Inr predictions, s')"
  shows "(avg_buy fp predictions \<noteq> Finite 0 \<longrightarrow>
            (\<exists>result. get_best_months fp model yr s = (Inr result, s')
               \<and> fdiv fp (fsum fp (map price (best_buy_months result))) (Finite 3)
                   = avg_buy fp predictions
               \<and> potential_profit_margin (profit_analysis result) =
                   fround2 fp (fmul fp
                     (fdiv fp
                        (fsub fp
                           (fdiv fp (fsum fp (map price (best_sell_months result))) (Finite 3))
                           (fdiv fp (fsum fp (map price (best_buy_months result))) (Finite 3)))
                        (fdiv fp (fsum fp (map price (best_buy_months result))) (Finite 3)))
                     (Finite 100))))
       \<and> (avg_buy fp predictions = Finite 0 \<longrightarrow>
            get_best_months fp model yr s = (Inl (BestMonthsFailed ZeroDivisionError), s'))
       \<and> (ieee fp \<and> map predicted_price predictions = [0, 0, 0, 0, 0, 0, 0, 0, 0, 0, 0, 0] \<longrightarrow>
            get_best_months fp model yr s = (Inl (BestMonthsFailed ZeroDivisionError), s'))"
proof (intro conjI impI)
  assume nz: "avg_buy fp predictions \<noteq> Finite 0"
  have "length (sorted_predictions predictions) = 12"
    by (simp add: sorted_predictions_def predict_year_length [OF py])
  then have "best_buy predictions \<noteq> []" and "best_sell predictions \<noteq> []"
    by (auto simp: best_buy_def best_sell_def)
  with nz obtain result where rk: "rank_months fp yr predictions = Inr result"
    by (auto simp: rank_months_def Let_def)
  have g: "get_best_months fp model yr s = (Inr result, s')"
    by (simp add: get_best_months_def py rk)
  have b: "fdiv fp (fsum fp (map price (best_buy_months result))) (Finite 3)
             = avg_buy fp predictions"
    by (simp only: rank_months_Inr(3) [OF rk] avg_buy_def)
  have sl: "fdiv fp (fsum fp (map price (best_sell_months result))) (Finite 3)
             = avg_sell fp predictions"
    by (simp only: rank_months_Inr(5) [OF rk] avg_sell_def)
  have "potential_profit_margin (profit_analysis result) =
          fround2 fp (fmul fp
            (fdiv fp
               (fsub fp
                  (fdiv fp (fsum fp (map price (best_sell_months result))) (Finite 3))
                  (fdiv fp (fsum fp (map price (best_buy_months result))) (Finite 3)))
               (fdiv fp (fsum fp (map price (best_buy_months result))) (Finite 3)))
            (Finite 100))"
    by (simp only: b sl rank_months_Inr(8) [OF rk])
  with g b show "\<exists>result. get_best_months fp model yr s = (Inr result, s')
               \<and> fdiv fp (fsum fp (map price (best_buy_months result))) (Finite 3)
                   = avg_buy fp predictions
               \<and> potential_profit_margin (profit_analysis result) =
                   fround2 fp (fmul fp
                     (fdiv fp
                        (fsub fp
                           (fdiv fp (fsum fp (map price (best_sell_months result))) (Finite 3))
                           (fdiv fp (fsum fp (map price (best_buy_months result))) (Finite 3)))
                        (fdiv fp (fsum fp (map price (best_buy_months result))) (Finite 3)))
                     (Finite 100))"
    by blast
next
  assume "avg_buy fp predictions = Finite 0"
  then show "get_best_months fp model yr s = (Inl (BestMonthsFailed ZeroDivisionError), s')"
    by (simp add: get_best_months_def py rank_months_def)
next
  assume a: "ieee fp \<and> map predicted_price predictions = [0, 0, 0, 0, 0, 0, 0, 0, 0, 0, 0, 0]"
  then have i: "ieee fp"
    and z: "map predicted_price predictions = [0, 0, 0, 0, 0, 0, 0, 0, 0, 0, 0, 0]"
    by simp_all
  have so: "sorted_predictions predictions = predictions"
    unfolding sorted_predictions_def
    by (rule sort_key_id_if_sorted) (simp add: z)
  have "map predicted_price (best_buy predictions) = [0, 0, 0]"
    by (simp add: best_buy_def so take_map [symmetric] z)
  then have "avg_buy fp predictions = Finite 0"
    by (simp only: avg_buy_def zero_arithmetic [OF i])
  then show "get_best_months fp model yr s = (Inl (BestMonthsFailed ZeroDivisionError), s')"
    by (simp add: get_best_months_def py rank_months_def)
qed

theorem margin_or_failure_witness:
  "predict_year (sample_model squares 100) 2025 (0::nat) = (Inr (sample_year squares 2025), 12)
   \<and> avg_buy exact_ops (sample_year squares 2025) = Finite (14 / 3)
   \<and> Finite (14 / 3) \<noteq> Finite 0
   \<and> map_sum id (\<lambda>r. potential_profit_margin (profit_analysis r))
         (fst (get_best_months exact_ops (sample_model squares 100) 2025 (0::nat)))
       = Inr (Finite (250714 / 100))
   \<and> predict_year (sample_model squares 100) 2024 (0::nat) = (Inr (historical_year 2024), 0)
   \<and> avg_buy exact_ops (historical_year 2024) = Finite 0
   \<and> ieee exact_ops
   \<and> map predicted_price (historical_year 2024) = [0, 0, 0, 0, 0, 0, 0, 0, 0, 0, 0, 0]
   \<and> get_best_months exact_ops (sample_model squares 100) 2024 (0::nat)
       = (Inl (BestMonthsFailed ZeroDivisionError), 0)"
proof -
  have e: "predict_year (sample_model squares 100) 2025 (0::nat)
             = (Inr (sample_year squares 2025), 12)"
    by code_simp
  have a: "avg_buy exact_ops (sample_year squares 2025) = Finite (14 / 3)"
    by code_simp
  have n: "Finite (14 / 3) \<noteq> Finite 0" by simp
  have m: "map_sum id (\<lambda>r. potential_profit_margin (profit_analysis r))
         (fst (get_best_months exact_ops (sample_model squares 100) 2025 (0::nat)))
       = Inr (Finite (250714 / 100))"
    by code_simp
  have h: "predict_year (sample_model squares 100) 2024 (0::nat) = (Inr (historical_year 2024), 0)"
    by code_simp
  have z: "avg_buy exact_ops (historical_year 2024) = Finite 0"
    by code_simp
  have p: "map predicted_price (historical_year 2024) = [0, 0, 0, 0, 0, 0, 0, 0, 0, 0, 0, 0]"
    by code_simp
  have f: "get_best_months exact_ops (sample_model squares 100) 2024 (0::nat)
             = (Inl (BestMonthsFailed ZeroDivisionError), 0)"
    using margin_or_failure [OF h, of exact_ops] ieee_exact_ops p by blast
  have "\<exists>result. get_best_months exact_ops (sample_model squares 100) 2025 (0::nat)
          = (Inr result, 12)"
    using margin_or_failure [OF e, of exact_ops] a n by auto
  show ?thesis
    by (intro conjI) (rule e a n m h z ieee_exact_ops p f)+
qed

section \<open>Forecasts of several years\<close>

lemma predict_years_Inr:
  "predict_years model yrs s = (Inr d, s') \<Longrightarrow>
     map fst d = yrs \<and> (\<forall>(y, ps) \<in> set d. \<exists>s1 s2. predict_year model y s1 = (Inr ps, s2))"
proof (induction yrs arbitrary: s d)
  case Nil
  then show ?case by simp
next
  case (Cons yr yrs)
  from Cons.prems obtain ps s1 d' where
    a: "predict_year model yr s = (Inr ps, s1)" and
    b: "predict_years model yrs s1 = (Inr d', s')" and
    c: "d = (yr, ps) # d'"
    by (auto split: sum.splits prod.splits)
  from Cons.IH [OF b] a c show ?case by auto
qed

lemma predict_years_Inl:
  "predict_years model yrs s = (Inl e, s') \<Longrightarrow>
     \<exists>pre y post d s1. yrs = pre @ y # post \<and> predict_years model pre s = (Inr d, s1)
        \<and> predict_year model y s1 = (Inl e, s')"
proof (induction yrs arbitrary: s)
  case Nil
  then show ?case by simp
next
  case (Cons yr yrs)
  show ?case
  proof (cases "predict_year model yr s")
    case (Pair r s1)
    show ?thesis
    proof (cases r)
      case (Inl e1)
      with Pair Cons.prems have "predict_year model yr s = (Inl e, s')" by simp
      then have "yr # yrs = [] @ yr # yrs \<and> predict_years model [] s = (Inr [], s)
          \<and> predict_year model yr s = (Inl e, s')" by simp
      then show ?thesis by blast
    next
      case (Inr ps)
      with Pair Cons.prems have rest: "predict_years model yrs s1 = (Inl e, s')"
        by (auto split: sum.splits prod.splits)
      from Cons.IH [OF rest] obtain pre y post d s2 where
        x: "yrs = pre @ y # post" "predict_years model pre s1 = (Inr d, s2)"
           "predict_year model y s2 = (Inl e, s')" by blast
      have "yr # yrs = (yr # pre) @ y # post" using x(1) by simp
      moreover have "predict_years model (yr # pre) s = (Inr ((yr, ps) # d), s2)"
        using Pair Inr x(2) by simp
      ultimately show ?thesis using x(3) by blast
    qed
  qed
qed

text \<open>
  Claim C7. When \<open>get_multi_year_predictions\<close> succeeds, the mapping it returns has one
  entry for each year of the half-open range from the start year to the start year
  plus the count, in this order, and each entry is a result of \<open>predict_year\<close> for its
  year. When it fails, the years before some year of the range succeeded, that year
  failed in \<open>predict_year\<close>, the error is this failure wrapped as "Multi-year prediction
  failed", and the state is the one the failed year left: no later year was run and no
  mapping is returned.
\<close>

theorem multi_year_forecast:
  "(get_multi_year_predictions model current_year years s = (Inr all_predictions, s') \<longrightarrow>
      map fst all_predictions = [current_year..current_year + years - 1]
      \<and> set (map fst all_predictions) = {y. current_year \<le> y \<and> y < current_year + years}
      \<and> (\<forall>(y, ps) \<in> set all_predictions. \<exists>s1 s2. predict_year model y s1 = (Inr ps, s2)))
   \<and> (get_multi_year_predictions model current_year years s = (Inl e, s') \<longrightarrow>
      (\<exists>pre y post d s1 cause.
          [current_year..current_year + years - 1] = pre @ y # post
          \<and> predict_years model pre s = (Inr d, s1)
          \<and> predict_year model y s1 = (Inl cause, s')
          \<and> e = MultiYearPredictionFailed cause))"
proof (intro conjI impI)
  assume "get_multi_year_predictions model current_year years s = (Inr all_predictions, s')"
  then have r: "predict_years model [current_year..current_year + years - 1] s
                  = (Inr all_predictions, s')"
    by (auto simp: get_multi_year_predictions_def split: sum.splits prod.splits)
  from predict_years_Inr [OF r]
  show k: "map fst all_predictions = [current_year..current_year + years - 1]"
    and "\<forall>(y, ps) \<in> set all_predictions. \<exists>s1 s2. predict_year model y s1 = (Inr ps, s2)"
    by simp_all
  show "set (map fst all_predictions) = {y. current_year \<le> y \<and> y < current_year + years}"
    by (simp only: k) auto
next
  assume "get_multi_year_predictions model current_year years s = (Inl e, s')"
  then obtain cause where
    r: "predict_years model [current_year..current_year + years - 1] s = (Inl cause, s')"
    and e: "e = MultiYearPredictionFailed cause"
    by (auto simp: get_multi_year_predictions_def split: sum.splits prod.splits)
  from predict_years_Inl [OF r] e
  show "\<exists>pre y post d s1 cause.
          [current_year..current_year + years - 1] = pre @ y # post
          \<and> predict_years model pre s = (Inr d, s1)
          \<and> predict_year model y s1 = (Inl cause, s')
          \<and> e = MultiYearPredictionFailed cause"
    by blast
qed

theorem multi_year_forecast_witness:
  "get_multi_year_predictions (sample_model ramp 100) 2025 2 (0::nat)
     = (Inr [(2025, sample_year ramp 2025), (2026, sample_year ramp 2026)], 24)
   \<and> map fst [(2025::int, sample_year ramp 2025), (2026, sample_year ramp 2026)] = [2025, 2026]
   \<and> [2025..2025 + 2 - 1] = [2025, 2026::int]
   \<and> predict_year (sample_model ramp 100) 2025 (0::nat) = (Inr (sample_year ramp 2025), 12)
   \<and> predict_year (sample_model ramp 100) 2026 (12::nat) = (Inr (sample_year ramp 2026), 24)
   \<and> get_multi_year_predictions (sample_model ramp 24) 2025 3 (0::nat)
       = (Inl (MultiYearPredictionFailed (YearPredictionFailed (MonthPredictionFailed
            (ModelError ''horizon too long'')))), 25)
   \<and> (\<exists>pre y post d s1 cause.
          [2025..2025 + 3 - 1] = pre @ y # post
          \<and> predict_years (sample_model ramp 24) pre (0::nat) = (Inr d, s1)
          \<and> predict_year (sample_model ramp 24) y s1 = (Inl cause, 25)
          \<and> MultiYearPredictionFailed (YearPredictionFailed (MonthPredictionFailed
                (ModelError ''horizon too long''))) = MultiYearPredictionFailed cause)
   \<and> [2025..2025 + 3 - 1] = [2025, 2026] @ (2027::int) # []
   \<and> predict_years (sample_model ramp 24) [2025, 2026] (0::nat)
       = (Inr [(2025, sample_year ramp 2025), (2026, sample_year ramp 2026)], 24)
   \<and> predict_year (sample_model ramp 24) 2027 (24::nat)
       = (Inl (YearPredictionFailed (MonthPredictionFailed (ModelError ''horizon too long''))), 25)"
proof -
  have g: "get_multi_year_predictions (sample_model ramp 100) 2025 2 (0::nat)
     = (Inr [(2025, sample_year ramp 2025), (2026, sample_year ramp 2026)], 24)"
    by code_simp
  have y1: "predict_year (sample_model ramp 100) 2025 (0::nat) = (Inr (sample_year ramp 2025), 12)"
    by code_simp
  have y2: "predict_year (sample_model ramp 100) 2026 (12::nat) = (Inr (sample_year ramp 2026), 24)"
    by code_simp
  have f: "get_multi_year_predictions (sample_model ramp 24) 2025 3 (0::nat)
       = (Inl (MultiYearPredictionFailed (YearPredictionFailed (MonthPredictionFailed
            (ModelError ''horizon too long'')))), 25)"
    by code_simp
  have p: "predict_years (sample_model ramp 24) [2025, 2026] (0::nat)
       = (Inr [(2025, sample_year ramp 2025), (2026, sample_year ramp 2026)], 24)"
    by code_simp
  have y3: "predict_year (sample_model ramp 24) 2027 (24::nat)
       = (Inl (YearPredictionFailed (MonthPredictionFailed (ModelError ''horizon too long''))), 25)"
    by code_simp
  have u2: "[2025..2025 + 2 - 1] = [2025, 2026::int]" by code_simp
  have u3: "[2025..2025 + 3 - 1] = [2025, 2026] @ (2027::int) # []" by code_simp
  have k: "map fst [(2025::int, sample_year ramp 2025), (2026, sample_year ramp 2026)] = [2025, 2026]"
    using multi_year_forecast [of "sample_model ramp 100" 2025 2 "0::nat"
        "[(2025, sample_year ramp 2025), (2026, sample_year ramp 2026)]" 24] g u2
    by simp
  have x: "\<exists>pre y post d s1 cause.
          [2025..2025 + 3 - 1] = pre @ y # post
          \<and> predict_years (sample_model ramp 24) pre (0::nat) = (Inr d, s1)
          \<and> predict_year (sample_model ramp 24) y s1 = (Inl cause, 25)
          \<and> MultiYearPredictionFailed (YearPredictionFailed (MonthPredictionFailed
                (ModelError ''horizon too long''))) = MultiYearPredictionFailed cause"
    using multi_year_forecast [of "sample_model ramp 24" 2025 3 "0::nat" _ 25
        "MultiYearPredictionFailed (YearPredictionFailed (MonthPredictionFailed
                (ModelError ''horizon too long'')))"] f
    by blast
  show ?thesis
    by (intro conjI) (rule g k u2 y1 y2 f x u3 p y3)+
qed

section \<open>The chart series\<close>

lemma str_nat_last: "str_nat n \<noteq> [] \<and> last (str_nat n) = digit_char (n mod 10)"
  by (subst (1 2) str_nat.simps) simp

lemma last2_snoc: "xs \<noteq> [] \<Longrightarrow> last2 (xs @ [c]) = [last xs, c]"
proof -
  assume "xs \<noteq> []"
  then obtain ys y where "xs = ys @ [y]" by (metis append_butlast_last_id)
  then show ?thesis by (simp add: last2_def)
qed

lemma last2_str_int:
  assumes "10 \<le> y"
  shows "last2 (str_int y) = [digit_char (nat (y div 10 mod 10)), digit_char (nat (y mod 10))]"
proof -
  let ?n = "nat y"
  have n: "\<not> ?n < 10" using assms by simp
  have "str_int y = str_nat ?n" using assms by (simp add: str_int_def)
  also have "\<dots> = str_nat (?n div 10) @ [digit_char (?n mod 10)]"
    using n by (subst str_nat.simps) simp
  finally have "last2 (str_int y) = [digit_char (?n div 10 mod 10), digit_char (?n mod 10)]"
    using str_nat_last [of "?n div 10"] by (simp add: last2_snoc)
  moreover have "?n div 10 mod 10 = nat (y div 10 mod 10)" and "?n mod 10 = nat (y mod 10)"
    using assms by (simp_all add: nat_div_distrib nat_mod_distrib)
  ultimately show ?thesis by simp
qed

lemma abbreviations:
  "map (take 3) month_names
     = [''Jan'', ''Feb'', ''Mar'', ''Apr'', ''May'', ''Jun'',
        ''Jul'', ''Aug'', ''Sep'', ''Oct'', ''Nov'', ''Dec'']"
  by (simp add: month_names_def)

lemma chart_series_labels:
  assumes "\<forall>(y, ps) \<in> set d. map month ps = month_names \<and> 10 \<le> y"
  shows "map fst (chart_series d) =
           concat (map (\<lambda>y. map (\<lambda>abbr. abbr @ '' '' @
                     [digit_char (nat (y div 10 mod 10)), digit_char (nat (y mod 10))])
                   (map (take 3) month_names)) (map fst d))"
  using assms
proof (induction d)
  case Nil
  then show ?case by (simp add: chart_series_def)
next
  case (Cons a d)
  obtain y ps where a: "a = (y, ps)" by (cases a)
  from Cons.prems a have m: "map month ps = month_names" and y: "10 \<le> y" by simp_all
  have "map (\<lambda>p. chart_label (month p) y) ps = map (\<lambda>name. chart_label name y) (map month ps)"
    by simp
  also have "\<dots> = map (\<lambda>abbr. abbr @ '' '' @
                     [digit_char (nat (y div 10 mod 10)), digit_char (nat (y mod 10))])
                   (map (take 3) month_names)"
    by (simp only: m) (simp add: chart_label_def last2_str_int [OF y])
  finally have h: "map (\<lambda>p. chart_label (month p) y) ps = map (\<lambda>abbr. abbr @ '' '' @
                     [digit_char (nat (y div 10 mod 10)), digit_char (nat (y mod 10))])
                   (map (take 3) month_names)" .
  have t: "map fst (chart_series d) =
           concat (map (\<lambda>y. map (\<lambda>abbr. abbr @ '' '' @
                     [digit_char (nat (y div 10 mod 10)), digit_char (nat (y mod 10))])
                   (map (take 3) month_names)) (map fst d))"
    using Cons.IH Cons.prems by simp
  have "map fst (chart_series (a # d)) = map (\<lambda>p. chart_label (month p) y) ps @ map fst (chart_series d)"
    by (simp add: chart_series_def a o_def)
  then show ?case by (simp only: h t a) simp
qed

lemma chart_series_length:
  assumes "\<forall>(y, ps) \<in> set d. length ps = 12"
  shows "length (chart_series d) = 12 * length d"
  using assms
  by (induction d) (auto simp: chart_series_def)

lemma chart_series_prices:
  "map snd (chart_series d) = concat (map (\<lambda>(y, ps). map predicted_price ps) d)"
  by (induction d) (auto simp: chart_series_def)

text \<open>
  Claim C9. For a forecast of several years that \<open>get_multi_year_predictions\<close> returned
  (the current year has at least two digits), the chart series has 12 points for each
  of the years it covers; the points stand by ascending year and, within a year, in
  calendar order; each label is the first three letters of the month's name, a blank,
  and the last two digits of the year; the prices are those of the forecast, in the
  same order.
\<close>

theorem chart_series_shape:
  assumes g: "get_multi_year_predictions model current_year years s = (Inr predictions, s')"
    and c: "10 \<le> current_year"
  shows "length predictions = nat years
       \<and> length (chart_series predictions) = 12 * nat years
       \<and> map fst (chart_series predictions) =
           concat (map (\<lambda>y. map (\<lambda>abbr. abbr @ '' '' @
                     [digit_char (nat (y div 10 mod 10)), digit_char (nat (y mod 10))])
                   [''Jan'', ''Feb'', ''Mar'', ''Apr'', ''May'', ''Jun'',
                    ''Jul'', ''Aug'', ''Sep'', ''Oct'', ''Nov'', ''Dec''])
                 [current_year..current_year + years - 1])
       \<and> map snd (chart_series predictions) =
           concat (map (\<lambda>(y, ps). map predicted_price ps) predictions)"
proof -
  from g have r: "predict_years model [current_year..current_year + years - 1] s
                  = (Inr predictions, s')"
    by (auto simp: get_multi_year_predictions_def split: sum.splits prod.splits)
  from predict_years_Inr [OF r] have
    k: "map fst predictions = [current_year..current_year + years - 1]" and
    p: "\<forall>(y, ps) \<in> set predictions. \<exists>s1 s2. predict_year model y s1 = (Inr ps, s2)"
    by simp_all
  have "length (map fst predictions) = nat years"
    by (simp only: k) simp
  then have n: "length predictions = nat years" by simp
  have l: "\<forall>(y, ps) \<in> set predictions. length ps = 12"
    using p by (auto dest: predict_year_length)
  have "\<forall>a \<in> set predictions. fst a \<in> set (map fst predictions)" by simp
  then have "\<forall>a \<in> set predictions. 10 \<le> fst a"
    using c by (simp only: k) auto
  then have m: "\<forall>(y, ps) \<in> set predictions. map month ps = month_names \<and> 10 \<le> y"
    using p by (auto dest: predict_year_Inr)
  show ?thesis
    using chart_series_length [OF l] chart_series_labels [OF m] chart_series_prices [of predictions]
    by (simp only: n k abbreviations)
qed

theorem chart_series_shape_witness:
  "get_multi_year_predictions (sample_model ramp 100) 2025 2 (0::nat)
     = (Inr [(2025, sample_year ramp 2025), (2026, sample_year ramp 2026)], 24)
   \<and> (10::int) \<le> 2025
   \<and> length (chart_series [(2025, sample_year ramp 2025), (2026, sample_year ramp 2026)]) = 24
   \<and> map fst (chart_series [(2025, sample_year ramp 2025), (2026, sample_year ramp 2026)])
       = [''Jan 25'', ''Feb 25'', ''Mar 25'', ''Apr 25'', ''May 25'', ''Jun 25'',
          ''Jul 25'', ''Aug 25'', ''Sep 25'', ''Oct 25'', ''Nov 25'', ''Dec 25'',
          ''Jan 26'', ''Feb 26'', ''Mar 26'', ''Apr 26'', ''May 26'', ''Jun 26'',
          ''Jul 26'', ''Aug 26'', ''Sep 26'', ''Oct 26'', ''Nov 26'', ''Dec 26'']
   \<and> map snd (chart_series [(2025, sample_year ramp 2025), (2026, sample_year ramp 2026)])
       = [10, 20, 30, 40, 50, 60, 70, 80, 90, 100, 110, 120,
          10, 20, 30, 40, 50, 60, 70, 80, 90, 100, 110, 120]"
proof -
  have g: "get_multi_year_predictions (sample_model ramp 100) 2025 2 (0::nat)
     = (Inr [(2025, sample_year ramp 2025), (2026, sample_year ramp 2026)], 24)"
    by code_simp
  have c: "(10::int) \<le> 2025" by simp
  have l: "map fst (chart_series [(2025, sample_year ramp 2025), (2026, sample_year ramp 2026)])
       = [''Jan 25'', ''Feb 25'', ''Mar 25'', ''Apr 25'', ''May 25'', ''Jun 25'',
          ''Jul 25'', ''Aug 25'', ''Sep 25'', ''Oct 25'', ''Nov 25'', ''Dec 25'',
          ''Jan 26'', ''Feb 26'', ''Mar 26'', ''Apr 26'', ''May 26'', ''Jun 26'',
          ''Jul 26'', ''Aug 26'', ''Sep 26'', ''Oct 26'', ''Nov 26'', ''Dec 26'']"
    by code_simp
  have p: "map snd (chart_series [(2025, sample_year ramp 2025), (2026, sample_year ramp 2026)])
       = [10, 20, 30, 40, 50, 60, 70, 80, 90, 100, 110, 120,
          10, 20, 30, 40, 50, 60, 70, 80, 90, 100, 110, 120]"
    by code_simp
  have n: "length (chart_series [(2025, sample_year ramp 2025), (2026, sample_year ramp 2026)]) = 24"
    using chart_series_shape [OF g c] by simp
  show ?thesis
    by (intro conjI) (rule g c n l p)+
qed

section \<open>The year check of the request handlers\<close>

text \<open>
  \<open>best_buy_months\<close> and \<open>best_sell_months\<close> reject a year before the current one with the
  status 400, before the predictor is called: the state is untouched.
\<close>

lemma best_buy_months_view_past_year:
  "yr < current_year \<Longrightarrow>
     best_buy_months_view fp model current_year (Given yr) s
       = (Failure 400 CannotAnalyzePastYears, s)"
  by (simp add: best_buy_months_view_def int_param_def)

lemma best_sell_months_view_past_year:
  "yr < current_year \<Longrightarrow>
     best_sell_months_view fp model current_year (Given yr) s
       = (Failure 400 CannotAnalyzePastYears, s)"
  by (simp add: best_sell_months_view_def int_param_def)

text \<open>\<open>complete_analysis\<close> has no such check: it never answers 400.\<close>

lemma complete_analysis_status:
  "status (fst (complete_analysis fp model current_year savefig year_param chart_years_param s))
     \<noteq> 400"
  by (simp add: complete_analysis_def split: sum.splits prod.splits)

text \<open>
  What the advisor answers for 2025 on the prices 10, 20, ..., 120, in every arithmetic
  that returns exact results exactly.
\<close>

lemma ramp_best_months:
  assumes i: "ieee fp"
  shows "get_best_months fp (sample_model ramp 100) 2025 (0::nat) = (Inr ramp_result, 12)"
proof -
  let ?ps = "sample_year ramp 2025"
  have e: "predict_year (sample_model ramp 100) 2025 (0::nat) = (Inr ?ps, 12)"
    by code_simp
  have bp: "map predicted_price (best_buy ?ps) = [10, 20, 30]"
    and sp: "map predicted_price (best_sell ?ps) = [100, 110, 120]"
    by code_simp+
  have ne: "best_buy ?ps \<noteq> []" "best_sell ?ps \<noteq> []"
    using bp sp by auto
  have bb: "map (\<lambda>m. \<lparr>rec_month = month m, price = predicted_price m,
                        reason = get_buy_reason (month m)\<rparr>) (best_buy ?ps)
      = [\<lparr>rec_month = ''January'', price = 10, reason = ''Post-holiday prices usually drop''\<rparr>,
         \<lparr>rec_month = ''February'', price = 20, reason = ''Short month, stable low prices''\<rparr>,
         \<lparr>rec_month = ''March'', price = 30, reason = ''Before peak season price rise''\<rparr>]"
    by code_simp
  have bs: "map (\<lambda>m. \<lparr>rec_month = month m, price = predicted_price m,
                        reason = get_sell_reason (month m)\<rparr>) (best_sell ?ps)
      = [\<lparr>rec_month = ''October'', price = 100, reason = ''Pre-holiday stocking begins''\<rparr>,
         \<lparr>rec_month = ''November'', price = 110, reason = ''Holiday preparation peak''\<rparr>,
         \<lparr>rec_month = ''December'', price = 120, reason = ''Highest holiday season prices''\<rparr>]"
    by code_simp
  have lo: "predicted_price (hd (best_buy ?ps)) = 10"
    and hi: "predicted_price (last (best_sell ?ps)) = 120"
    by code_simp+
  have ab: "avg_buy fp ?ps = Finite 20"
    by (simp only: avg_buy_def bp ramp_arithmetic(1) [OF i])
  have as: "avg_sell fp ?ps = Finite 110"
    by (simp only: avg_sell_def sp ramp_arithmetic(2) [OF i])
  have "rank_months fp 2025 ?ps = Inr ramp_result"
    by (simp add: rank_months_def ab as ne bb bs lo hi ramp_arithmetic(3-6) [OF i]
          ramp_result_def)
  then show ?thesis
    by (simp add: get_best_months_def e)
qed

text \<open>
  Claim C8. Every handler that takes a year should reject a year before the current
  one with the status 400 "Cannot analyze past years" before the advisor is called.
  \<open>complete_analysis\<close> does not: in 2026, asked for the year 2025 and one chart year, it
  calls the predictor 36 times and answers 200 with the analysis of 2025, in every
  arithmetic that returns exact results exactly.
\<close>

theorem complete_analysis_past_year:
  assumes i: "ieee fp"
  shows "complete_analysis fp (sample_model ramp 100) 2026
     (\<lambda>series. Inr ''chickmash_predictions_20260105_093000.png'')
     (Given 2025) (Given 1) (0::nat)
   = (Success (CompleteAnalysis ramp_result [(2026, sample_year ramp 2026)]
         ''chickmash_predictions_20260105_093000.png''
         ''/media/chickmash_predictions_20260105_093000.png'')
       ''Complete chicken mash analysis for 2025'', 36)"
proof -
  have m: "get_multi_year_predictions (sample_model ramp 100) 2026 1 (12::nat)
             = (Inr [(2026, sample_year ramp 2026)], 24)"
    by code_simp
  have c: "generate_price_chart (sample_model ramp 100) 2026
             (\<lambda>series. Inr ''chickmash_predictions_20260105_093000.png'') 1 (24::nat)
             = (Inr ''chickmash_predictions_20260105_093000.png'', 36)"
    by code_simp
  have b: "basename ''chickmash_predictions_20260105_093000.png''
             = ''chickmash_predictions_20260105_093000.png''"
    by code_simp
  have y: "str_int 2025 = ''2025''"
    by code_simp
  show ?thesis
    by (simp add: complete_analysis_def int_param_def ramp_best_months [OF i] m c b y)
qed

theorem complete_analysis_past_year_witness:
  "ieee exact_ops
   \<and> complete_analysis exact_ops (sample_model ramp 100) 2026
     (\<lambda>series. Inr ''chickmash_predictions_20260105_093000.png'')
     (Given 2025) (Given 1) (0::nat)
   = (Success (CompleteAnalysis ramp_result [(2026, sample_year ramp 2026)]
         ''chickmash_predictions_20260105_093000.png''
         ''/media/chickmash_predictions_20260105_093000.png'')
       ''Complete chicken mash analysis for 2025'', 36)"
  using complete_analysis_past_year [OF ieee_exact_ops] ieee_exact_ops by simp

end
